theory Spec2Isabelle
  imports Main
begin

section \<open>JavaScript values, DOM nodes and option objects\<close>

text \<open>
  The repository holds several revisions of the one library file. Three of them are
  embedded here, each definition from the lines of its revision:
  \<^item> \<^verbatim>\<open>src/unnamed/part_003\<close>, the revision with the interface that
    \<^verbatim>\<open>src/README.md\<close> documents (\<^verbatim>\<open>ps.wait\<close>, \<^verbatim>\<open>ps.$remove\<close>): \<^verbatim>\<open>wait\<close>, \<^verbatim>\<open>$\<close>,
    \<^verbatim>\<open>$table\<close>, \<^verbatim>\<open>$tableWithHeaders\<close>, \<^verbatim>\<open>validateOptions\<close>. Its constants carry
    the suffix \<open>_p3\<close>, but for \<open>wait\<close>, \<open>poll\<close>, \<open>fire\<close> and \<open>run\<close>;
  \<^item> \<^verbatim>\<open>src/unnamed/part_002\<close>, the revision before it, with the same interface:
    \<^verbatim>\<open>wait\<close>, \<^verbatim>\<open>$\<close>, \<^verbatim>\<open>validateOptions\<close>; suffix \<open>_p2\<close>;
  \<^item> \<^verbatim>\<open>src/portascrape.js\<close>, an earlier revision: \<^verbatim>\<open>waitForFunction\<close>, \<^verbatim>\<open>$\<close>,
    \<^verbatim>\<open>$table\<close>, \<^verbatim>\<open>$tableWithHeaders\<close>, \<^verbatim>\<open>validateOptions\<close>; suffix \<open>_js\<close>, but for
    \<open>waitForFunction\<close>.

  \<^verbatim>\<open>$\<close> is not an Isabelle identifier and is written \<open>dollar\<close>.

  Numbers are the integers among the JavaScript numbers. Strings are lists of code units
  below 256. A DOM node is a text node, a comment node or an element with a tag name and
  child nodes.
\<close>

datatype node = TextNode string | CommentNode string | Element string "node list"

datatype errclass = PlainError | TypeErr | ReferenceErr

datatype jsval =
    JUndefined
  | JNull
  | JBool bool
  | JNum int
  | JStr string
  | JRegExp string
  | JElem node
  | JError errclass string

text \<open>The truthiness test of \<^verbatim>\<open>if (v)\<close>, \<^verbatim>\<open>!v\<close>, \<^verbatim>\<open>a && b\<close>.\<close>

fun truthy :: "jsval \<Rightarrow> bool" where
  "truthy JUndefined = False"
| "truthy JNull = False"
| "truthy (JBool b) = b"
| "truthy (JNum n) = (n \<noteq> 0)"
| "truthy (JStr s) = (s \<noteq> [])"
| "truthy (JRegExp r) = True"
| "truthy (JElem e) = True"
| "truthy (JError c m) = True"

text \<open>\<^verbatim>\<open>typeof v === "string"\<close>, \<^verbatim>\<open>typeof v === "number"\<close>, \<^verbatim>\<open>v instanceof RegExp\<close>.\<close>

fun is_string :: "jsval \<Rightarrow> bool" where
  "is_string (JStr s) = True"
| "is_string v = False"

fun is_number :: "jsval \<Rightarrow> bool" where
  "is_number (JNum n) = True"
| "is_number v = False"

fun is_regexp :: "jsval \<Rightarrow> bool" where
  "is_regexp (JRegExp r) = True"
| "is_regexp v = False"

text \<open>
  A plain object is the list of its own properties in the order of their creation.
  Defining a property that exists keeps its place; a new property goes last.
\<close>

type_synonym obj = "(string \<times> jsval) list"

fun put_prop :: "obj \<Rightarrow> string \<Rightarrow> jsval \<Rightarrow> obj" where
  "put_prop [] k v = [(k, v)]"
| "put_prop ((k', v') # rest) k v =
     (if k' = k then (k, v) # rest else (k', v') # put_prop rest k v)"

text \<open>
  The assignment \<^verbatim>\<open>o[k] = v\<close> that \<^verbatim>\<open>Object.assign\<close> makes on its target, the fresh
  \<^verbatim>\<open>{}\<close>. For the key \<^verbatim>\<open>__proto__\<close>, which a source has at most once, the assignment
  goes to the setter inherited from \<^verbatim>\<open>Object.prototype\<close> and makes no own property.
  (The setter replaces the prototype of \<open>o\<close> when \<open>v\<close> is \<^verbatim>\<open>null\<close> or an object.
  Prototypes are not part of the model of the options: a regular expression, an error
  object or \<^verbatim>\<open>null\<close> as prototype brings no enumerable property; options whose own
  \<^verbatim>\<open>__proto__\<close> property holds a DOM element, which does, are not covered.)
\<close>

definition set_prop :: "obj \<Rightarrow> string \<Rightarrow> jsval \<Rightarrow> obj" where
  "set_prop ob k v = (if k = ''__proto__'' then ob else put_prop ob k v)"

definition get :: "obj \<Rightarrow> string \<Rightarrow> jsval" where
  "get ob k = (case map_of ob k of None \<Rightarrow> JUndefined | Some v \<Rightarrow> v)"

text \<open>
  Enumeration order of the own properties (\<^verbatim>\<open>for (key in o)\<close>, \<^verbatim>\<open>Object.assign\<close>):
  the array indices first, in ascending numeric order, then the other names in creation
  order. An array index is a canonical decimal numeral below \<open>2^32 - 1\<close>.
\<close>

definition is_digit :: "char \<Rightarrow> bool" where
  "is_digit c = ((48::nat) \<le> of_char c \<and> of_char c \<le> (57::nat))"

definition digits_value :: "string \<Rightarrow> int" where
  "digits_value s = foldl (\<lambda>acc c. 10 * acc + (int (of_char c) - 48)) 0 s"

definition is_array_index :: "string \<Rightarrow> bool" where
  "is_array_index s =
     (s \<noteq> [] \<and> list_all is_digit s \<and> (if hd s = CHR ''0'' then s = ''0'' else True)
      \<and> digits_value s < 4294967295)"

definition own_entries :: "obj \<Rightarrow> obj" where
  "own_entries ob =
     sort_key (\<lambda>(k, v). digits_value k) (filter (\<lambda>(k, v). is_array_index k) ob)
     @ filter (\<lambda>(k, v). \<not> is_array_index k) ob"

text \<open>
  \<^verbatim>\<open>Object.assign(target, source)\<close>; an \<^verbatim>\<open>undefined\<close> source (\<open>None\<close>) is skipped.
\<close>

definition assign :: "obj \<Rightarrow> obj option \<Rightarrow> obj" where
  "assign target source =
     (case source of
        None \<Rightarrow> target
      | Some src \<Rightarrow> fold (\<lambda>(k, v) t. set_prop t k v) (own_entries src) target)"

definition defaultOptions :: obj where
  "defaultOptions = [(''timeout'', JNum 10000), (''polling'', JStr ''raf'')]"

text \<open>\<^verbatim>\<open>options = Object.assign({}, defaultOptions, options)\<close>, the first line of every revision.\<close>

definition merge_options :: "obj option \<Rightarrow> obj" where
  "merge_options options = assign (assign [] (Some defaultOptions)) options"

section \<open>validateOptions\<close>

definition validKeys :: "string list" where
  "validKeys = [''timeout'', ''polling'', ''exactText'', ''containsText'', ''matches'']"

definition textOptions :: "string list" where
  "textOptions = [''exactText'', ''containsText'', ''matches'']"

definition quoted :: "string \<Rightarrow> string" where
  "quoted key = [CHR 0x27] @ key @ [CHR 0x27]"

definition invalid_option :: "string \<Rightarrow> jsval" where
  "invalid_option key = JError PlainError (''Invalid option '' @ quoted key @ '' provided.'')"

definition conflicting_matchers :: jsval where
  "conflicting_matchers =
     JError PlainError
       (''Only one of '' @ quoted ''exactText'' @ '', '' @ quoted ''containsText''
        @ '', or '' @ quoted ''matches'' @ '' can be provided.'')"

text \<open>
  \<^verbatim>\<open>src/portascrape.js\<close>, lines 246-279. The loop runs over the enumerated properties;
  \<open>n\<close> is \<^verbatim>\<open>providedTextOptions\<close>. \<open>Inl e\<close> is \<^verbatim>\<open>throw e\<close>.
\<close>

fun validate_loop_js :: "obj \<Rightarrow> nat \<Rightarrow> jsval + unit" where
  "validate_loop_js [] n = Inr ()"
| "validate_loop_js ((key, v) # rest) n =
     (if key \<notin> set validKeys then Inl (invalid_option key)
      else if key \<in> set textOptions \<and> \<not> is_string v \<and> \<not> is_regexp v
        then Inl (JError TypeErr (quoted key @ '' must be a string or RegExp.''))
      else if (if key \<in> set textOptions then Suc n else n) > 1
        then Inl conflicting_matchers
      else validate_loop_js rest (if key \<in> set textOptions then Suc n else n))"

definition validateOptions_js :: "obj \<Rightarrow> jsval + unit" where
  "validateOptions_js options = validate_loop_js (own_entries options) 0"

text \<open>
  \<^verbatim>\<open>/text/.test(key)\<close>: the key has the lower-case substring \<^verbatim>\<open>text\<close>.
\<close>

primrec js_includes :: "string \<Rightarrow> string \<Rightarrow> bool" where
  "js_includes [] sub = (sub = [])"
| "js_includes (c # cs) sub = (take (length sub) (c # cs) = sub \<or> js_includes cs sub)"

text \<open>\<^verbatim>\<open>src/unnamed/part_002\<close>, lines 288-322.\<close>

fun validate_loop_p2 :: "obj \<Rightarrow> nat \<Rightarrow> jsval + unit" where
  "validate_loop_p2 [] n = Inr ()"
| "validate_loop_p2 ((key, v) # rest) n =
     (if key \<notin> set validKeys then Inl (invalid_option key)
      else if key \<in> set textOptions \<and> js_includes key ''text'' \<and> \<not> is_string v
        then Inl (JError TypeErr (quoted key @ '' must be a string.''))
      else if key \<in> set textOptions \<and> key = ''matches'' \<and> \<not> is_regexp v
        then Inl (JError TypeErr (quoted key @ '' must be a RegExp.''))
      else if (if key \<in> set textOptions then Suc n else n) > 1
        then Inl conflicting_matchers
      else validate_loop_p2 rest (if key \<in> set textOptions then Suc n else n))"

definition validateOptions_p2 :: "obj \<Rightarrow> jsval + unit" where
  "validateOptions_p2 options = validate_loop_p2 (own_entries options) 0"

text \<open>
  \<^verbatim>\<open>src/unnamed/part_003\<close>, lines 317-351. The first test is
  \<^verbatim>\<open>validKeys.indexOf(key) >= 0\<close>: it throws for the keys that are in the list.
\<close>

fun validate_loop_p3 :: "obj \<Rightarrow> nat \<Rightarrow> jsval + unit" where
  "validate_loop_p3 [] n = Inr ()"
| "validate_loop_p3 ((key, v) # rest) n =
     (if key \<in> set validKeys then Inl (invalid_option key)
      else if key \<in> set textOptions \<and> js_includes key ''text'' \<and> \<not> is_string v
        then Inl (JError TypeErr (quoted key @ '' must be a string.''))
      else if key \<in> set textOptions \<and> key = ''matches'' \<and> \<not> is_regexp v
        then Inl (JError TypeErr (quoted key @ '' must be a RegExp.''))
      else if (if key \<in> set textOptions then Suc n else n) > 1
        then Inl conflicting_matchers
      else validate_loop_p3 rest (if key \<in> set textOptions then Suc n else n))"

definition validateOptions_p3 :: "obj \<Rightarrow> jsval + unit" where
  "validateOptions_p3 options = validate_loop_p3 (own_entries options) 0"

section \<open>The wait engine\<close>

text \<open>
  One call of \<^verbatim>\<open>wait\<close> is followed through the callbacks the host runs for it. The
  state holds the promise, the number of evaluations of the predicate so far, and what
  the call has pending in the host: the timeout timer, the timer or animation frame of
  the next \<^verbatim>\<open>poll\<close>, the mutation observer. The counters record every timer, frame
  request and observer the call has created; \<open>uncaught\<close> lists the exceptions that left a
  callback.

  The predicate is given by the outcomes of its successive evaluations:
  \<open>fn k\<close> is what evaluation number \<open>k\<close> (from 0) returns or throws.
\<close>

datatype settlement = Pending | Resolved jsval | Rejected jsval

datatype completion = Returns jsval | Throws jsval

type_synonym predicate = "nat \<Rightarrow> completion"

record wait_state =
  settled :: settlement
  evals :: nat
  timeout_timer :: bool
  poll_timer :: bool
  poll_frame :: bool
  observer :: bool
  timers_created :: nat
  frames_requested :: nat
  observers_created :: nat
  uncaught :: "jsval list"

definition initial :: wait_state where
  "initial =
     \<lparr>settled = Pending, evals = 0, timeout_timer = False, poll_timer = False,
      poll_frame = False, observer = False, timers_created = 0, frames_requested = 0,
      observers_created = 0, uncaught = []\<rparr>"

text \<open>\<^verbatim>\<open>resolve\<close> and \<^verbatim>\<open>reject\<close> of a promise act only while it is pending.\<close>

definition resolve :: "jsval \<Rightarrow> wait_state \<Rightarrow> wait_state" where
  "resolve v s = (if settled s = Pending then s\<lparr>settled := Resolved v\<rparr> else s)"

definition reject :: "jsval \<Rightarrow> wait_state \<Rightarrow> wait_state" where
  "reject e s = (if settled s = Pending then s\<lparr>settled := Rejected e\<rparr> else s)"

definition clearTimeout :: "wait_state \<Rightarrow> wait_state" where
  "clearTimeout s = s\<lparr>timeout_timer := False\<rparr>"

text \<open>
  Where an exception goes. Thrown while the executor of \<^verbatim>\<open>new Promise\<close> runs, it
  rejects the promise (the constructor catches it). Thrown in a callback run by the host
  (timer, animation frame, mutation observer), it leaves the callback uncaught and the
  promise is not touched.
\<close>

datatype caller = InExecutor | InCallback

definition throw_in :: "caller \<Rightarrow> jsval \<Rightarrow> wait_state \<Rightarrow> wait_state" where
  "throw_in c e s =
     (case c of
        InExecutor \<Rightarrow> reject e s
      | InCallback \<Rightarrow> s\<lparr>uncaught := uncaught s @ [e]\<rparr>)"

text \<open>
  Number to string, on the integers. JavaScript prints the shortest decimal numeral that
  the number, a double, is the nearest double of: for an integer below \<open>2^53\<close> these
  are its own digits, above they end in zeros or, from 22 digits on, in an exponent
  (\<open>2^64\<close> prints as \<^verbatim>\<open>18446744073709552000\<close>, \<open>10^21\<close> as \<^verbatim>\<open>1e+21\<close>). For an
  integer that is no double (none are missing below \<open>2^53\<close>) the model prints the digits.
\<close>

function show_digits :: "int \<Rightarrow> string" where
  "show_digits m =
     (if m < 10 then [char_of (48 + m)]
      else show_digits (m div 10) @ [char_of (48 + m mod 10)])"
  by pat_completeness auto
termination
  by (relation "measure nat") auto

function bit_length :: "int \<Rightarrow> nat" where
  "bit_length m = (if m \<le> 0 then 0 else Suc (bit_length (m div 2)))"
  by pat_completeness auto
termination
  by (relation "measure nat") auto

text \<open>The double nearest to an integer \<open>m \<ge> 0\<close>: 53 significant bits, ties to even.\<close>

definition to_double :: "int \<Rightarrow> int" where
  "to_double m =
     (let b = bit_length m in
      if b \<le> 53 then m
      else (let unit = 2 ^ (b - 53); q = m div unit; r = m mod unit
            in if unit < 2 * r \<or> (2 * r = unit \<and> odd q) then (q + 1) * unit else q * unit))"

text \<open>
  The numerals of \<open>k\<close> significant digits next to \<open>m\<close> (which has \<open>n\<close> digits) that the
  double \<open>m\<close> is the nearest double of; of two, the closer one, and the even one in a tie.
\<close>

definition candidates :: "int \<Rightarrow> nat \<Rightarrow> nat \<Rightarrow> int list" where
  "candidates m n k =
     (let p = 10 ^ (n - k); a = (m div p) * p; b = a + p
      in if to_double a = m \<and> to_double b = m
           then (if m - a < b - m then [a]
                 else if b - m < m - a then [b]
                 else if even (a div p) then [a] else [b])
         else if to_double a = m then [a]
         else if to_double b = m then [b]
         else [])"

definition shortest :: "int \<Rightarrow> int" where
  "shortest m =
     (let n = length (show_digits m)
      in case concat (map (candidates m n) [1..<Suc n]) of
           [] \<Rightarrow> m
         | v # rest \<Rightarrow> v)"

definition number_digits :: "int \<Rightarrow> string" where
  "number_digits m =
     (let ds = show_digits (shortest m); n = length ds
      in if n \<le> 21 then ds
         else (let sig = rev (dropWhile (\<lambda>c. c = CHR ''0'') (rev ds))
               in (if length sig = 1 then sig else hd sig # CHR ''.'' # tl sig)
                  @ ''e+'' @ show_digits (int n - 1)))"

definition show_int :: "int \<Rightarrow> string" where
  "show_int i = (if i < 0 then CHR ''-'' # number_digits (- i) else number_digits i)"

definition timeout_message :: "int \<Rightarrow> string" where
  "timeout_message t =
     ''timeout of '' @ show_int t @ ''ms exceeded waiting for function to return true''"

subsection \<open>\<^verbatim>\<open>wait\<close> of \<^verbatim>\<open>src/unnamed/part_003\<close>, lines 47-103\<close>

text \<open>
  \<open>timeout\<close> is \<^verbatim>\<open>options.timeout\<close>, a number by the type \<^verbatim>\<open>PsOptions\<close>; \<open>polling\<close> is
  \<^verbatim>\<open>options.polling\<close>. \<^verbatim>\<open>poll\<close> (lines 86-99) runs once inside the executor and then as
  a timer or frame callback.
\<close>

definition poll :: "caller \<Rightarrow> predicate \<Rightarrow> jsval \<Rightarrow> wait_state \<Rightarrow> wait_state" where
  "poll c fn polling s =
     (case fn (evals s) of
        Throws e \<Rightarrow> throw_in c e (s\<lparr>evals := Suc (evals s)\<rparr>)
      | Returns result \<Rightarrow>
          (if truthy result
             then resolve result (clearTimeout (s\<lparr>evals := Suc (evals s)\<rparr>))
           else if is_number polling
             then s\<lparr>evals := Suc (evals s), poll_timer := True,
                    timers_created := Suc (timers_created s)\<rparr>
           else s\<lparr>evals := Suc (evals s), poll_frame := True,
                  frames_requested := Suc (frames_requested s)\<rparr>))"

text \<open>The callback of the mutation observer, lines 73-81.\<close>

definition on_mutation :: "predicate \<Rightarrow> wait_state \<Rightarrow> wait_state" where
  "on_mutation fn s =
     (case fn (evals s) of
        Throws e \<Rightarrow> throw_in InCallback e (s\<lparr>evals := Suc (evals s)\<rparr>)
      | Returns result \<Rightarrow>
          (if truthy result
             then resolve result (clearTimeout (s\<lparr>evals := Suc (evals s), observer := False\<rparr>))
           else s\<lparr>evals := Suc (evals s)\<rparr>))"

text \<open>The executor, lines 51-102: the state when \<^verbatim>\<open>wait\<close> returns the promise.\<close>

definition wait_executor :: "predicate \<Rightarrow> int \<Rightarrow> jsval \<Rightarrow> wait_state" where
  "wait_executor fn timeout polling =
     (case fn 0 of
        Throws e \<Rightarrow> reject e (initial\<lparr>evals := 1\<rparr>)
      | Returns result \<Rightarrow>
          (if truthy result then resolve result (initial\<lparr>evals := 1\<rparr>)
           else
             (let s = (if timeout \<noteq> 0 \<and> timeout > 0
                       then initial\<lparr>evals := 1, timeout_timer := True, timers_created := 1\<rparr>
                       else initial\<lparr>evals := 1\<rparr>)
              in if polling = JStr ''mutation''
                   then s\<lparr>observer := True, observers_created := 1\<rparr>
                 else poll InExecutor fn polling s)))"

text \<open>
  What the host can do next: fire the timeout timer, fire the timer set by \<^verbatim>\<open>poll\<close>,
  run the requested animation frame, deliver a batch of mutations to the observer. An
  event whose timer, frame or observer is not pending changes nothing.
\<close>

datatype event = TimeoutFires | PollTimerFires | FrameTick | Mutation

fun fire :: "predicate \<Rightarrow> int \<Rightarrow> jsval \<Rightarrow> event \<Rightarrow> wait_state \<Rightarrow> wait_state" where
  "fire fn timeout polling TimeoutFires s =
     (if timeout_timer s
        then reject (JError PlainError (timeout_message timeout)) (s\<lparr>timeout_timer := False\<rparr>)
      else s)"
| "fire fn timeout polling PollTimerFires s =
     (if poll_timer s then poll InCallback fn polling (s\<lparr>poll_timer := False\<rparr>) else s)"
| "fire fn timeout polling FrameTick s =
     (if poll_frame s then poll InCallback fn polling (s\<lparr>poll_frame := False\<rparr>) else s)"
| "fire fn timeout polling Mutation s =
     (if observer s then on_mutation fn s else s)"

definition run :: "predicate \<Rightarrow> int \<Rightarrow> jsval \<Rightarrow> event list \<Rightarrow> wait_state \<Rightarrow> wait_state" where
  "run fn timeout polling events s = fold (fire fn timeout polling) events s"

text \<open>
  The whole call: merge, validate, then the executor. \<open>Threw e\<close>: the call throws before
  a promise exists. \<open>OutsideModel\<close>: the merged \<^verbatim>\<open>timeout\<close> is not a number.
\<close>

datatype call_result = Threw jsval | Promise wait_state | OutsideModel

definition wait :: "predicate \<Rightarrow> obj option \<Rightarrow> call_result" where
  "wait fn options =
     (let merged = merge_options options in
      case validateOptions_p3 merged of
        Inl e \<Rightarrow> Threw e
      | Inr u \<Rightarrow>
          (case get merged ''timeout'' of
             JNum t \<Rightarrow> Promise (wait_executor fn t (get merged ''polling''))
           | _ \<Rightarrow> OutsideModel))"

subsection \<open>\<^verbatim>\<open>wait\<close> of \<^verbatim>\<open>src/unnamed/part_002\<close>, lines 52-106\<close>

text \<open>
  The executor, lines 56-105. Its \<^verbatim>\<open>poll\<close> (lines 89-102) and its observer callback
  (lines 76-84) are the statements of part_003, so \<open>poll\<close> and \<open>on_mutation\<close> stand for
  them. The timeout is armed under \<^verbatim>\<open>options.timeout > 0\<close>, and its callback rejects
  with the message as a string.
\<close>

definition wait_executor_p2 :: "predicate \<Rightarrow> int \<Rightarrow> jsval \<Rightarrow> wait_state" where
  "wait_executor_p2 fn timeout polling =
     (case fn 0 of
        Throws e \<Rightarrow> reject e (initial\<lparr>evals := 1\<rparr>)
      | Returns result \<Rightarrow>
          (if truthy result then resolve result (initial\<lparr>evals := 1\<rparr>)
           else
             (let s = (if timeout > 0
                       then initial\<lparr>evals := 1, timeout_timer := True, timers_created := 1\<rparr>
                       else initial\<lparr>evals := 1\<rparr>)
              in if polling = JStr ''mutation''
                   then s\<lparr>observer := True, observers_created := 1\<rparr>
                 else poll InExecutor fn polling s)))"

fun fire_p2 :: "predicate \<Rightarrow> int \<Rightarrow> jsval \<Rightarrow> event \<Rightarrow> wait_state \<Rightarrow> wait_state" where
  "fire_p2 fn timeout polling TimeoutFires s =
     (if timeout_timer s
        then reject (JStr (timeout_message timeout)) (s\<lparr>timeout_timer := False\<rparr>)
      else s)"
| "fire_p2 fn timeout polling PollTimerFires s =
     (if poll_timer s then poll InCallback fn polling (s\<lparr>poll_timer := False\<rparr>) else s)"
| "fire_p2 fn timeout polling FrameTick s =
     (if poll_frame s then poll InCallback fn polling (s\<lparr>poll_frame := False\<rparr>) else s)"
| "fire_p2 fn timeout polling Mutation s =
     (if observer s then on_mutation fn s else s)"

definition run_p2 :: "predicate \<Rightarrow> int \<Rightarrow> jsval \<Rightarrow> event list \<Rightarrow> wait_state \<Rightarrow> wait_state" where
  "run_p2 fn timeout polling events s = fold (fire_p2 fn timeout polling) events s"

definition wait_p2 :: "predicate \<Rightarrow> obj option \<Rightarrow> call_result" where
  "wait_p2 fn options =
     (let merged = merge_options options in
      case validateOptions_p2 merged of
        Inl e \<Rightarrow> Threw e
      | Inr u \<Rightarrow>
          (case get merged ''timeout'' of
             JNum t \<Rightarrow> Promise (wait_executor_p2 fn t (get merged ''polling''))
           | _ \<Rightarrow> OutsideModel))"

subsection \<open>\<^verbatim>\<open>waitForFunction\<close> of \<^verbatim>\<open>src/portascrape.js\<close>, lines 51-101\<close>

text \<open>
  \<^verbatim>\<open>poll\<close> (lines 84-97) passes \<^verbatim>\<open>checkFunction\<close> to \<^verbatim>\<open>setTimeout\<close> and
  \<^verbatim>\<open>requestAnimationFrame\<close>. No such name is declared in the file, so evaluating it is
  a ReferenceError (a page that defines a global of that name is not covered). It runs
  only inside the executor.
\<close>

definition poll_js :: "predicate \<Rightarrow> wait_state \<Rightarrow> wait_state" where
  "poll_js fn s =
     (case fn (evals s) of
        Throws e \<Rightarrow> throw_in InExecutor e (s\<lparr>evals := Suc (evals s)\<rparr>)
      | Returns result \<Rightarrow>
          (if truthy result
             then resolve result (clearTimeout (s\<lparr>evals := Suc (evals s)\<rparr>))
           else throw_in InExecutor (JError ReferenceErr ''checkFunction is not defined'')
                  (s\<lparr>evals := Suc (evals s)\<rparr>)))"

definition waitForFunction_executor :: "predicate \<Rightarrow> int \<Rightarrow> jsval \<Rightarrow> wait_state" where
  "waitForFunction_executor fn timeout polling =
     (case fn 0 of
        Throws e \<Rightarrow> reject e (initial\<lparr>evals := 1\<rparr>)
      | Returns result \<Rightarrow>
          (if truthy result then resolve result (initial\<lparr>evals := 1\<rparr>)
           else
             (let s = initial\<lparr>evals := 1, timeout_timer := True, timers_created := 1\<rparr>
              in if polling = JStr ''mutation''
                   then s\<lparr>observer := True, observers_created := 1\<rparr>
                 else poll_js fn s)))"

fun fire_js :: "predicate \<Rightarrow> int \<Rightarrow> event \<Rightarrow> wait_state \<Rightarrow> wait_state" where
  "fire_js fn timeout TimeoutFires s =
     (if timeout_timer s
        then reject (JStr (timeout_message timeout)) (s\<lparr>timeout_timer := False\<rparr>)
      else s)"
| "fire_js fn timeout Mutation s = (if observer s then on_mutation fn s else s)"
| "fire_js fn timeout PollTimerFires s = s"
| "fire_js fn timeout FrameTick s = s"

definition waitForFunction :: "predicate \<Rightarrow> obj option \<Rightarrow> call_result" where
  "waitForFunction fn options =
     (let merged = merge_options options in
      case validateOptions_js merged of
        Inl e \<Rightarrow> Threw e
      | Inr u \<Rightarrow>
          (case get merged ''timeout'' of
             JNum t \<Rightarrow> Promise (waitForFunction_executor fn t (get merged ''polling''))
           | _ \<Rightarrow> OutsideModel))"

section \<open>The document\<close>

text \<open>
  \<^verbatim>\<open>node.textContent\<close>: the data of a text or comment node; for an element the data of
  its text descendants in tree order (comments are left out).
\<close>

fun is_text :: "node \<Rightarrow> bool" where
  "is_text (TextNode s) = True"
| "is_text n = False"

fun is_comment :: "node \<Rightarrow> bool" where
  "is_comment (CommentNode s) = True"
| "is_comment n = False"

fun childNodes :: "node \<Rightarrow> node list" where
  "childNodes (Element tag children) = children"
| "childNodes n = []"

fun textContent :: "node \<Rightarrow> string" where
  "textContent (TextNode s) = s"
| "textContent (CommentNode s) = s"
| "textContent (Element tag children) =
     concat (map textContent (filter (\<lambda>c. \<not> is_comment c) children))"

text \<open>
  \<^verbatim>\<open>String.prototype.trim\<close> over the code units below 256: tab, line feed, vertical tab,
  form feed, carriage return, space, no-break space.
\<close>

definition is_space :: "char \<Rightarrow> bool" where
  "is_space c = (of_char c \<in> {9, 10, 11, 12, 13, 32, 160 :: nat})"

definition trim :: "string \<Rightarrow> string" where
  "trim s = rev (dropWhile is_space (rev (dropWhile is_space s)))"

text \<open>
  \<^verbatim>\<open>root.querySelectorAll\<close> with a list of tag names (\<^verbatim>\<open>"tr"\<close>, \<^verbatim>\<open>"td, th"\<close>): the
  descendant elements of \<open>root\<close> with one of the tags, in tree order. Tag names are the
  lower-case local names.
\<close>

fun descendants :: "node \<Rightarrow> node list" where
  "descendants (Element tag children) = concat (map (\<lambda>c. c # descendants c) children)"
| "descendants n = []"

fun has_tag :: "string list \<Rightarrow> node \<Rightarrow> bool" where
  "has_tag tags (Element tag children) = (tag \<in> set tags)"
| "has_tag tags n = False"

definition querySelectorAll_tags :: "node \<Rightarrow> string list \<Rightarrow> node list" where
  "querySelectorAll_tags root tags = filter (has_tag tags) (descendants root)"

text \<open>
  The document as the locator sees it at one evaluation: for a selector, either the
  exception \<^verbatim>\<open>querySelectorAll\<close> throws (\<open>Inl\<close>, an invalid selector) or the matching
  elements in document order. \<^verbatim>\<open>querySelector\<close> gives the first of them, or \<^verbatim>\<open>null\<close>.
\<close>

type_synonym document = "string \<Rightarrow> jsval + node list"

definition querySelector :: "document \<Rightarrow> string \<Rightarrow> completion" where
  "querySelector doc selector =
     (case doc selector of
        Inl e \<Rightarrow> Throws e
      | Inr [] \<Rightarrow> Returns JNull
      | Inr (e # rest) \<Rightarrow> Returns (JElem e))"

section \<open>The locator \<^verbatim>\<open>$\<close>\<close>

text \<open>
  The text matchers of \<^verbatim>\<open>PsOptions\<close>, by their declared types: \<open>None\<close> is an absent
  key. A regular expression is its source; \<open>test re s\<close> stands for \<^verbatim>\<open>re.test(s)\<close> and is a
  parameter.
\<close>

record text_options =
  exactText :: "string option"
  containsText :: "string option"
  matches :: "string option"

fun str_truthy :: "string option \<Rightarrow> bool" where
  "str_truthy None = False"
| "str_truthy (Some s) = (s \<noteq> [])"

text \<open>A regular expression object is truthy whenever the key is present.\<close>

fun regexp_truthy :: "string option \<Rightarrow> bool" where
  "regexp_truthy None = False"
| "regexp_truthy (Some re) = True"

text \<open>
  The text matchers read from an options object. \<open>None\<close>: a matcher holds a value that
  is not of its declared type (nor \<^verbatim>\<open>undefined\<close>); \<^verbatim>\<open>$\<close> on such options is not
  modelled.
\<close>

fun string_of :: "jsval \<Rightarrow> string option" where
  "string_of (JStr s) = Some s"
| "string_of v = None"

fun regexp_of :: "jsval \<Rightarrow> string option" where
  "regexp_of (JRegExp r) = Some r"
| "regexp_of v = None"

definition typed_text_options :: "obj \<Rightarrow> text_options option" where
  "typed_text_options ob =
     (if (get ob ''exactText'' = JUndefined \<or> is_string (get ob ''exactText''))
         \<and> (get ob ''containsText'' = JUndefined \<or> is_string (get ob ''containsText''))
         \<and> (get ob ''matches'' = JUndefined \<or> is_regexp (get ob ''matches''))
      then Some \<lparr>exactText = string_of (get ob ''exactText''),
                 containsText = string_of (get ob ''containsText''),
                 matches = regexp_of (get ob ''matches'')\<rparr>
      else None)"

subsection \<open>\<^verbatim>\<open>src/unnamed/part_003\<close>, lines 239-310\<close>

text \<open>\<^verbatim>\<open>search\<close>, lines 248-258: the element, if one of its child nodes is a text node that fulfils the predicate.\<close>

fun search_loop :: "node \<Rightarrow> (node \<Rightarrow> bool) \<Rightarrow> node list \<Rightarrow> jsval" where
  "search_loop element predicate [] = JNull"
| "search_loop element predicate (child # rest) =
     (if is_text child \<and> predicate child then JElem element
      else search_loop element predicate rest)"

definition search :: "node \<Rightarrow> (node \<Rightarrow> bool) \<Rightarrow> jsval" where
  "search element predicate = search_loop element predicate (childNodes element)"

text \<open>
  The loop over the queried elements, lines 270-306. \<^verbatim>\<open>var result\<close> is one variable of
  the enclosing function, so its value is carried from one element to the next.
\<close>

fun dollar_loop_p3 ::
  "(string \<Rightarrow> string \<Rightarrow> bool) \<Rightarrow> text_options \<Rightarrow> node list \<Rightarrow> jsval \<Rightarrow> jsval" where
  "dollar_loop_p3 test options [] result = JNull"
| "dollar_loop_p3 test options (element # rest) result =
     (let r1 = (if str_truthy (exactText options) \<or> str_truthy (containsText options)
                then search element
                       (\<lambda>child. textContent child \<noteq> []
                                \<and> Some (trim (textContent child)) = exactText options)
                else result);
          r2 = (if str_truthy (containsText options)
                then search element
                       (\<lambda>child. textContent child \<noteq> []
                                \<and> js_includes (textContent child) (the (containsText options)))
                else r1);
          r3 = (if regexp_truthy (matches options)
                then search element
                       (\<lambda>child. textContent child \<noteq> []
                                \<and> test (the (matches options)) (trim (textContent child)))
                else r2)
      in if truthy r3 then r3 else dollar_loop_p3 test options rest r3)"

text \<open>The predicate handed to \<^verbatim>\<open>wait\<close>, lines 260-309; \<open>None\<close> is a call without options.\<close>

definition dollar_predicate_p3 ::
  "(string \<Rightarrow> string \<Rightarrow> bool) \<Rightarrow> document \<Rightarrow> string \<Rightarrow> text_options option \<Rightarrow> completion" where
  "dollar_predicate_p3 test doc selector options =
     (case options of
        None \<Rightarrow> querySelector doc selector
      | Some opts \<Rightarrow>
          (if str_truthy (exactText opts) \<or> str_truthy (containsText opts)
               \<or> regexp_truthy (matches opts)
           then (case doc selector of
                   Inl e \<Rightarrow> Throws e
                 | Inr elements \<Rightarrow> Returns (dollar_loop_p3 test opts elements JUndefined))
           else querySelector doc selector))"

text \<open>
  The whole call, line 260: \<^verbatim>\<open>wait\<close> on the predicate, with the caller's options;
  \<open>docs k\<close> is the document at evaluation \<open>k\<close>.
\<close>

definition dollar_p3 ::
  "(string \<Rightarrow> string \<Rightarrow> bool) \<Rightarrow> (nat \<Rightarrow> document) \<Rightarrow> string \<Rightarrow> obj option \<Rightarrow> call_result" where
  "dollar_p3 test docs selector options =
     (case options of
        None \<Rightarrow> wait (\<lambda>k. dollar_predicate_p3 test (docs k) selector None) None
      | Some ob \<Rightarrow>
          (case typed_text_options ob of
             Some typed \<Rightarrow>
               wait (\<lambda>k. dollar_predicate_p3 test (docs k) selector (Some typed)) options
           | None \<Rightarrow>
               (case validateOptions_p3 (merge_options options) of
                  Inl e \<Rightarrow> Threw e
                | Inr u \<Rightarrow> OutsideModel)))"

subsection \<open>\<^verbatim>\<open>src/unnamed/part_002\<close>, lines 231-281\<close>

text \<open>
  \<^verbatim>\<open>search\<close>, lines 232-240, ends without a \<^verbatim>\<open>return\<close>: \<^verbatim>\<open>undefined\<close> when no child
  fulfils the predicate. The predicates of the loop, lines 252-277, test the text of the
  child as it is (there is no guard for an empty text).
\<close>

fun search_loop_p2 :: "node \<Rightarrow> (node \<Rightarrow> bool) \<Rightarrow> node list \<Rightarrow> jsval" where
  "search_loop_p2 element predicate [] = JUndefined"
| "search_loop_p2 element predicate (child # rest) =
     (if is_text child \<and> predicate child then JElem element
      else search_loop_p2 element predicate rest)"

definition search_p2 :: "node \<Rightarrow> (node \<Rightarrow> bool) \<Rightarrow> jsval" where
  "search_p2 element predicate = search_loop_p2 element predicate (childNodes element)"

fun dollar_loop_p2 ::
  "(string \<Rightarrow> string \<Rightarrow> bool) \<Rightarrow> text_options \<Rightarrow> node list \<Rightarrow> jsval \<Rightarrow> jsval" where
  "dollar_loop_p2 test options [] result = JNull"
| "dollar_loop_p2 test options (element # rest) result =
     (let r1 = (if str_truthy (exactText options) \<or> str_truthy (containsText options)
                then search_p2 element
                       (\<lambda>child. Some (trim (textContent child)) = exactText options)
                else result);
          r2 = (if str_truthy (containsText options)
                then search_p2 element
                       (\<lambda>child. js_includes (textContent child) (the (containsText options)))
                else r1);
          r3 = (if regexp_truthy (matches options)
                then search_p2 element
                       (\<lambda>child. test (the (matches options)) (trim (textContent child)))
                else r2)
      in if truthy r3 then r3 else dollar_loop_p2 test options rest r3)"

definition dollar_predicate_p2 ::
  "(string \<Rightarrow> string \<Rightarrow> bool) \<Rightarrow> document \<Rightarrow> string \<Rightarrow> text_options option \<Rightarrow> completion" where
  "dollar_predicate_p2 test doc selector options =
     (case options of
        None \<Rightarrow> querySelector doc selector
      | Some opts \<Rightarrow>
          (if str_truthy (exactText opts) \<or> str_truthy (containsText opts)
               \<or> regexp_truthy (matches opts)
           then (case doc selector of
                   Inl e \<Rightarrow> Throws e
                 | Inr elements \<Rightarrow> Returns (dollar_loop_p2 test opts elements JUndefined))
           else querySelector doc selector))"

definition dollar_p2 ::
  "(string \<Rightarrow> string \<Rightarrow> bool) \<Rightarrow> (nat \<Rightarrow> document) \<Rightarrow> string \<Rightarrow> obj option \<Rightarrow> call_result" where
  "dollar_p2 test docs selector options =
     (case options of
        None \<Rightarrow> wait_p2 (\<lambda>k. dollar_predicate_p2 test (docs k) selector None) None
      | Some ob \<Rightarrow>
          (case typed_text_options ob of
             Some typed \<Rightarrow>
               wait_p2 (\<lambda>k. dollar_predicate_p2 test (docs k) selector (Some typed)) options
           | None \<Rightarrow>
               (case validateOptions_p2 (merge_options options) of
                  Inl e \<Rightarrow> Threw e
                | Inr u \<Rightarrow> OutsideModel)))"

subsection \<open>\<^verbatim>\<open>src/portascrape.js\<close>, lines 206-239\<close>

fun dollar_loop_js ::
  "(string \<Rightarrow> string \<Rightarrow> bool) \<Rightarrow> text_options \<Rightarrow> node list \<Rightarrow> jsval" where
  "dollar_loop_js test options [] = JNull"
| "dollar_loop_js test options (element # rest) =
     (if str_truthy (exactText options) \<and> Some (textContent element) = exactText options
        then JElem element
      else if str_truthy (containsText options)
              \<and> js_includes (textContent element) (the (containsText options))
        then JElem element
      else if regexp_truthy (matches options) \<and> test (the (matches options)) (textContent element)
        then JElem element
      else dollar_loop_js test options rest)"

definition dollar_predicate_js ::
  "(string \<Rightarrow> string \<Rightarrow> bool) \<Rightarrow> document \<Rightarrow> string \<Rightarrow> text_options option \<Rightarrow> completion" where
  "dollar_predicate_js test doc selector options =
     (case options of
        None \<Rightarrow> querySelector doc selector
      | Some opts \<Rightarrow>
          (if str_truthy (exactText opts) \<or> str_truthy (containsText opts)
               \<or> regexp_truthy (matches opts)
           then (case doc selector of
                   Inl e \<Rightarrow> Throws e
                 | Inr elements \<Rightarrow> Returns (dollar_loop_js test opts elements))
           else querySelector doc selector))"

text \<open>The whole call, line 207: \<^verbatim>\<open>waitForFunction\<close> on the predicate, with the caller's options.\<close>

definition dollar_js ::
  "(string \<Rightarrow> string \<Rightarrow> bool) \<Rightarrow> (nat \<Rightarrow> document) \<Rightarrow> string \<Rightarrow> obj option \<Rightarrow> call_result" where
  "dollar_js test docs selector options =
     (case options of
        None \<Rightarrow> waitForFunction (\<lambda>k. dollar_predicate_js test (docs k) selector None) None
      | Some ob \<Rightarrow>
          (case typed_text_options ob of
             Some typed \<Rightarrow>
               waitForFunction (\<lambda>k. dollar_predicate_js test (docs k) selector (Some typed))
                 options
           | None \<Rightarrow>
               (case validateOptions_js (merge_options options) of
                  Inl e \<Rightarrow> Threw e
                | Inr u \<Rightarrow> OutsideModel)))"

section \<open>The table helpers\<close>

text \<open>
  The continuations that \<^verbatim>\<open>$table\<close> and \<^verbatim>\<open>$tableWithHeaders\<close> run on the located
  element. \<open>Inl e\<close>: the continuation throws \<open>e\<close> and the returned promise is rejected.
\<close>

definition undefined_row :: jsval where
  "undefined_row =
     JError TypeErr
       (''Cannot read properties of undefined (reading '' @ quoted ''querySelectorAll'' @ '')'')"

subsection \<open>\<^verbatim>\<open>src/unnamed/part_003\<close>, lines 172-219\<close>

definition dollar_table_p3 :: "node \<Rightarrow> jsval list list" where
  "dollar_table_p3 tableElement =
     map (\<lambda>row. map (\<lambda>cell. if textContent cell = [] then JStr []
                            else JStr (trim (textContent cell)))
                    (querySelectorAll_tags row [''td'', ''th'']))
         (querySelectorAll_tags tableElement [''tr''])"

text \<open>
  \<^verbatim>\<open>rowObject\<close>, lines 208-214: it starts as \<^verbatim>\<open>{}\<close>, and for each header and its
  index \<^verbatim>\<open>rowObject[header] = rowData[index]\<close>, which is \<^verbatim>\<open>undefined\<close> past the end
  of \<^verbatim>\<open>rowData\<close>. A header is a string, never \<^verbatim>\<open>null\<close>.

  Under the key \<^verbatim>\<open>__proto__\<close> the assignment reaches the setter that the object
  inherits from \<^verbatim>\<open>Object.prototype\<close>: it makes no own property, ignores a string and
  \<^verbatim>\<open>undefined\<close>, and for \<^verbatim>\<open>null\<close> removes the prototype of the object. After that the
  setter is no longer inherited, and the key is assigned like any other. The state of
  the loop is the list of own properties with the flag that the prototype has been
  removed; \<open>row_object\<close> gives the own properties. (The values of \<^verbatim>\<open>rowData\<close> are
  strings and, in part_003, \<^verbatim>\<open>null\<close>.)
\<close>

definition row_assign :: "obj \<times> bool \<Rightarrow> string \<Rightarrow> jsval \<Rightarrow> obj \<times> bool" where
  "row_assign st header v =
     (if header = ''__proto__'' \<and> \<not> snd st then (fst st, v = JNull)
      else (put_prop (fst st) header v, snd st))"

definition row_object :: "string list \<Rightarrow> jsval list \<Rightarrow> obj" where
  "row_object headers rowData =
     fst (fold (\<lambda>(header, index) st.
                  row_assign st header
                    (if index < length rowData then rowData ! index else JUndefined))
               (zip headers [0..<length headers]) ([], False))"

definition headers_p3 :: "node \<Rightarrow> string list" where
  "headers_p3 first =
     map (\<lambda>header. if textContent header = [] then [] else trim (textContent header))
         (querySelectorAll_tags first [''th''])"

definition rowData_p3 :: "node \<Rightarrow> jsval list" where
  "rowData_p3 row =
     map (\<lambda>cell. if textContent cell \<noteq> [] then JStr (trim (textContent cell)) else JNull)
         (querySelectorAll_tags row [''td''])"

definition dollar_tableWithHeaders_p3 :: "node \<Rightarrow> jsval + obj list" where
  "dollar_tableWithHeaders_p3 tableElement =
     (case querySelectorAll_tags tableElement [''tr''] of
        [] \<Rightarrow> Inl undefined_row
      | first # others \<Rightarrow>
          Inr (map (\<lambda>row. row_object (headers_p3 first) (rowData_p3 row)) others))"

subsection \<open>\<^verbatim>\<open>src/portascrape.js\<close>, lines 143-186\<close>

text \<open>\<^verbatim>\<open>src/unnamed/part_002\<close>, lines 168-217, has the same statements.\<close>

definition dollar_table_js :: "node \<Rightarrow> jsval list list" where
  "dollar_table_js tableElement =
     map (\<lambda>row. map (\<lambda>cell. JStr (trim (textContent cell)))
                    (querySelectorAll_tags row [''td'', ''th'']))
         (querySelectorAll_tags tableElement [''tr''])"

definition headers_js :: "node \<Rightarrow> string list" where
  "headers_js first =
     map (\<lambda>header. trim (textContent header)) (querySelectorAll_tags first [''th''])"

definition rowData_js :: "node \<Rightarrow> jsval list" where
  "rowData_js row =
     map (\<lambda>cell. JStr (trim (textContent cell))) (querySelectorAll_tags row [''td''])"

definition dollar_tableWithHeaders_js :: "node \<Rightarrow> jsval + obj list" where
  "dollar_tableWithHeaders_js tableElement =
     (case querySelectorAll_tags tableElement [''tr''] of
        [] \<Rightarrow> Inl undefined_row
      | first # others \<Rightarrow>
          Inr (map (\<lambda>row. row_object (headers_js first) (rowData_js row)) others))"

section \<open>Inputs and auxiliary notions of the properties\<close>

text \<open>The predicate that returns \<open>v\<close> at every evaluation.\<close>

definition always :: "jsval \<Rightarrow> predicate" where
  "always v = (\<lambda>k. Returns v)"

text \<open>
  What each validator lets pass, property by property: a recognised key, and for a text
  matcher a value of a type the revision tests for.
\<close>

definition acceptable_js :: "string \<times> jsval \<Rightarrow> bool" where
  "acceptable_js kv =
     (fst kv \<in> set validKeys
      \<and> (if fst kv \<in> set textOptions then is_string (snd kv) \<or> is_regexp (snd kv) else True))"

definition acceptable_p2 :: "string \<times> jsval \<Rightarrow> bool" where
  "acceptable_p2 kv =
     (fst kv \<in> set validKeys
      \<and> (if fst kv = ''matches'' then is_regexp (snd kv) else True))"

text \<open>
  The enumerated properties up to and including the second text matcher (all of them if
  there is no second one); \<open>n\<close> counts the text matchers already passed.
\<close>

fun upto_second_matcher :: "obj \<Rightarrow> nat \<Rightarrow> obj" where
  "upto_second_matcher [] n = []"
| "upto_second_matcher ((key, v) # rest) n =
     (if key \<in> set textOptions
      then (if 1 \<le> n then [(key, v)] else (key, v) # upto_second_matcher rest (Suc n))
      else (key, v) # upto_second_matcher rest n)"

text \<open>
  The predicate that returns \<^verbatim>\<open>null\<close> at its first \<open>n\<close> evaluations and throws \<open>e\<close> at
  every later one.
\<close>

definition throws_from :: "nat \<Rightarrow> jsval \<Rightarrow> predicate" where
  "throws_from n e = (\<lambda>k. if k < n then Returns JNull else Throws e)"

text \<open>The options with the value of \<^verbatim>\<open>polling\<close> replaced by \<open>p\<close>.\<close>

definition with_polling :: "jsval \<Rightarrow> obj \<Rightarrow> obj" where
  "with_polling p ob = map (\<lambda>(k, x). (k, if k = ''polling'' then p else x)) ob"

text \<open>
  The element has a child node that is a text node whose data, trimmed, is \<open>s\<close>.
\<close>

definition has_direct_text :: "string \<Rightarrow> node \<Rightarrow> bool" where
  "has_direct_text s element =
     list_ex (\<lambda>child. is_text child \<and> trim (textContent child) = s) (childNodes element)"

definition only_exactText :: "string \<Rightarrow> text_options" where
  "only_exactText s = \<lparr>exactText = Some s, containsText = None, matches = None\<rparr>"

text \<open>
  Paragraphs for the locator: one whose text \<^verbatim>\<open>hello\<close> lies in a nested element, one with
  a comment and a text node that holds \<^verbatim>\<open>hello\<close> between a line feed and spaces, one with
  the bare text. The document that has the first of them at the first evaluation and all
  three afterwards.
\<close>

definition nested_hello :: node where
  "nested_hello = Element ''p'' [Element ''b'' [TextNode ''hello'']]"

definition spaced_hello :: node where
  "spaced_hello = Element ''p'' [CommentNode ''hello'', TextNode ([CHR 0x0A] @ ''  hello '')]"

definition plain_hello :: node where
  "plain_hello = Element ''p'' [TextNode ''hello'']"

definition growing_document :: "nat \<Rightarrow> document" where
  "growing_document k =
     (\<lambda>selector. Inr (if k = 0 then [nested_hello]
                       else [nested_hello, spaced_hello, plain_hello]))"

text \<open>A regular expression test that never matches.\<close>

definition no_match :: "string \<Rightarrow> string \<Rightarrow> bool" where
  "no_match re s = False"

text \<open>
  In the words of the specification: the data cells of a row zipped positionally with
  the header texts into a mapping keyed by header text, a missing cell being an absent
  (\<^verbatim>\<open>undefined\<close>) value under its header.
\<close>

definition spec_zip_row :: "string list \<Rightarrow> jsval list \<Rightarrow> (string \<rightharpoonup> jsval)" where
  "spec_zip_row headers cells =
     map_of (rev (zip headers (cells @ replicate (length headers - length cells) JUndefined)))"

text \<open>The table of two rows and two columns, as a parser builds it.\<close>

definition example_table :: node where
  "example_table =
     Element ''table''
       [Element ''tbody''
          [Element ''tr'' [Element ''th'' [TextNode ''Name''], Element ''th'' [TextNode ''Age'']],
           Element ''tr'' [Element ''td'' [TextNode ''Alice''], Element ''td'' [TextNode ''30'']]]]"

text \<open>
  A table whose header texts carry white space and markup, with a row that is shorter
  than the header row and a row that is longer and has an empty cell.
\<close>

definition header_row :: node where
  "header_row =
     Element ''tr'' [Element ''th'' [TextNode '' Name ''],
                     Element ''th'' [TextNode (''Age'' @ [CHR 0x0A])],
                     Element ''th'' [Element ''b'' [TextNode ''City'']]]"

definition short_row :: node where
  "short_row = Element ''tr'' [Element ''td'' [TextNode ''Alice''], Element ''td'' [TextNode '' 30 '']]"

definition long_row :: node where
  "long_row =
     Element ''tr'' [Element ''td'' [TextNode '' Bob''], Element ''td'' [],
                     Element ''td'' [TextNode ''Oslo ''], Element ''td'' [TextNode ''extra'']]"

definition ragged_table :: node where
  "ragged_table = Element ''table'' [Element ''tbody'' [header_row, short_row, long_row]]"

section \<open>Properties of the validators\<close>

lemma own_entries_set: "set (own_entries ob) = set ob"
  by (auto simp: own_entries_def)

lemma own_entries_count: "length (filter Q (own_entries ob)) = length (filter Q ob)"
proof -
  have "length (filter Q (filter (\<lambda>(k, v). is_array_index k) ob))
        + length (filter Q (filter (\<lambda>(k, v). \<not> is_array_index k) ob)) = length (filter Q ob)"
    by (induction ob) auto
  moreover have
    "length (filter Q (sort_key (\<lambda>(k, v). digits_value k) (filter (\<lambda>(k, v). is_array_index k) ob)))
      = length (filter Q (filter (\<lambda>(k, v). is_array_index k) ob))"
    by (subst filter_sort) (rule length_sort)
  ultimately show ?thesis
    unfolding own_entries_def by simp
qed

lemma list_all_own_entries: "list_all P (own_entries ob) = list_all P ob"
  by (simp add: list_all_iff own_entries_set)

lemma valid_key_not_index: "k \<in> set validKeys \<Longrightarrow> \<not> is_array_index k"
  by (auto simp: validKeys_def is_array_index_def is_digit_def)

lemma text_key_valid: "k \<in> set textOptions \<Longrightarrow> k \<in> set validKeys"
  by (auto simp: validKeys_def textOptions_def)

lemma text_key_no_text: "k \<in> set textOptions \<Longrightarrow> \<not> js_includes k ''text''"
  by (auto simp: textOptions_def)

lemma assign_defaults: "assign [] (Some defaultOptions) = defaultOptions"
  by (simp add: assign_def defaultOptions_def own_entries_def is_array_index_def is_digit_def
        set_prop_def)

lemma fold_set_prop_head:
  "\<exists>v' t'. fold (\<lambda>(k, v) t. set_prop t k v) es ((k0, v0) # t) = (k0, v') # t'"
proof (induction es arbitrary: v0 t)
  case Nil
  then show ?case by simp
next
  case (Cons a es)
  obtain k v where a: "a = (k, v)" by (cases a)
  show ?case using Cons.IH a by (cases "k0 = k") (auto simp: set_prop_def)
qed

text \<open>The merged options always start with \<^verbatim>\<open>timeout\<close>, the first default.\<close>

lemma merge_options_head: "\<exists>v rest. merge_options options = (''timeout'', v) # rest"
proof (cases options)
  case None
  then show ?thesis
    by (simp add: merge_options_def assign_defaults) (simp add: assign_def defaultOptions_def)
next
  case (Some src)
  then show ?thesis
    using fold_set_prop_head[of "own_entries src" "''timeout''" "JNum 10000"
            "[(''polling'', JStr ''raf'')]"]
    by (simp add: merge_options_def assign_defaults) (simp add: assign_def defaultOptions_def)
qed

lemma loop_p3_skip:
  "\<forall>(k, v) \<in> set xs. k \<notin> set validKeys
   \<Longrightarrow> validate_loop_p3 (xs @ ys) 0 = validate_loop_p3 ys 0"
proof (induction xs)
  case Nil
  then show ?case by simp
next
  case (Cons a xs)
  obtain k v where a: "a = (k, v)" by (cases a)
  have "k \<notin> set validKeys" using Cons.prems a by simp
  moreover have "k \<notin> set textOptions" using calculation text_key_valid by blast
  ultimately show ?case using Cons a by simp
qed

lemma own_entries_timeout_first:
  "\<exists>xs ys. own_entries ((''timeout'', v) # rest) = xs @ (''timeout'', v) # ys
     \<and> (\<forall>(k, v) \<in> set xs. k \<notin> set validKeys)"
proof -
  let ?xs = "sort_key (\<lambda>(k, v). digits_value k) (filter (\<lambda>(k, v). is_array_index k) rest)"
  have ni: "\<not> is_array_index ''timeout''"
    by (rule valid_key_not_index) (simp add: validKeys_def)
  have "own_entries ((''timeout'', v) # rest)
        = ?xs @ (''timeout'', v) # filter (\<lambda>(k, v). \<not> is_array_index k) rest"
    using ni by (simp add: own_entries_def)
  moreover have "\<forall>(k, v) \<in> set ?xs. k \<notin> set validKeys"
    using valid_key_not_index by auto
  ultimately show ?thesis by blast
qed

lemma validate_p3_merged:
  "validateOptions_p3 (merge_options options) = Inl (invalid_option ''timeout'')"
proof -
  obtain v rest where m: "merge_options options = (''timeout'', v) # rest"
    using merge_options_head by blast
  obtain xs ys where e: "own_entries ((''timeout'', v) # rest) = xs @ (''timeout'', v) # ys"
    and xs: "\<forall>(k, v) \<in> set xs. k \<notin> set validKeys"
    using own_entries_timeout_first by blast
  have "validate_loop_p3 (xs @ (''timeout'', v) # ys) 0
        = validate_loop_p3 ((''timeout'', v) # ys) 0"
    using xs by (rule loop_p3_skip)
  also have "\<dots> = Inl (invalid_option ''timeout'')"
    by (simp add: validKeys_def)
  finally show ?thesis by (simp add: validateOptions_p3_def m e)
qed

lemma two_text_keys:
  assumes "k1 \<in> set textOptions" "k2 \<in> set textOptions" "k1 \<noteq> k2"
    and "k1 \<in> fst ` set ob" "k2 \<in> fst ` set ob"
  shows "2 \<le> length (filter (\<lambda>(k, v). k \<in> set textOptions) ob)"
proof -
  obtain v1 v2 where m: "(k1, v1) \<in> set ob" "(k2, v2) \<in> set ob" using assms(4,5) by auto
  let ?f = "filter (\<lambda>(k, v). k \<in> set textOptions) ob"
  have "{(k1, v1), (k2, v2)} \<subseteq> set ?f" using m assms(1,2) by auto
  then have "card {(k1, v1), (k2, v2)} \<le> card (set ?f)" by (intro card_mono) auto
  moreover have "card {(k1, v1), (k2, v2)} = 2" using assms(3) by simp
  moreover have "card (set ?f) \<le> length ?f" by (rule card_length)
  ultimately show ?thesis by linarith
qed

text \<open>
  On acceptable properties each loop only counts the text matchers: it ends in the
  conflict error at the second one and returns otherwise.
\<close>

lemma loop_js_acceptable:
  "list_all acceptable_js es \<Longrightarrow> n \<le> 1 \<Longrightarrow>
   validate_loop_js es n =
     (if 1 < n + length (filter (\<lambda>(k, v). k \<in> set textOptions) es)
      then Inl conflicting_matchers else Inr ())"
proof (induction es arbitrary: n)
  case Nil
  then show ?case by simp
next
  case (Cons a es)
  obtain k v where a: "a = (k, v)" by (cases a)
  show ?case
  proof (cases "k \<in> set textOptions")
    case True
    then show ?thesis using Cons.prems Cons.IH[of "Suc n"] a
      by (auto simp: acceptable_js_def)
  next
    case False
    then show ?thesis using Cons.prems Cons.IH[of n] a
      by (auto simp: acceptable_js_def)
  qed
qed

lemma loop_p2_acceptable:
  "list_all acceptable_p2 es \<Longrightarrow> n \<le> 1 \<Longrightarrow>
   validate_loop_p2 es n =
     (if 1 < n + length (filter (\<lambda>(k, v). k \<in> set textOptions) es)
      then Inl conflicting_matchers else Inr ())"
proof (induction es arbitrary: n)
  case Nil
  then show ?case by simp
next
  case (Cons a es)
  obtain k v where a: "a = (k, v)" by (cases a)
  show ?case
  proof (cases "k \<in> set textOptions")
    case True
    then show ?thesis using Cons.prems Cons.IH[of "Suc n"] a text_key_no_text[of k]
      by (auto simp: acceptable_p2_def)
  next
    case False
    then show ?thesis using Cons.prems Cons.IH[of n] a
      by (auto simp: acceptable_p2_def)
  qed
qed

lemma merge_only_polling:
  "merge_options (Some [(''polling'', p)]) = [(''timeout'', JNum 10000), (''polling'', p)]"
  by (simp add: merge_options_def assign_defaults)
     (simp add: assign_def defaultOptions_def own_entries_def is_array_index_def is_digit_def
        set_prop_def)

lemma own_entries_defaults_like:
  "own_entries [(''timeout'', t), (''polling'', p)] = [(''timeout'', t), (''polling'', p)]"
  by (simp add: own_entries_def is_array_index_def is_digit_def)

text \<open>
  The validators of \<^verbatim>\<open>src/portascrape.js\<close> and part_002 let every value of \<^verbatim>\<open>polling\<close>
  pass.
\<close>

lemma any_polling_value_passes:
  "validateOptions_js (merge_options (Some [(''polling'', p)])) = Inr ()"
  "validateOptions_p2 (merge_options (Some [(''polling'', p)])) = Inr ()"
  by (simp_all add: merge_only_polling validateOptions_js_def validateOptions_p2_def
        own_entries_defaults_like validKeys_def textOptions_def)

text \<open>
  What the validators of \<^verbatim>\<open>src/portascrape.js\<close> and part_002 accept: acceptable
  properties with at most one text matcher among them.
\<close>

lemma validateOptions_js_accepts:
  assumes "list_all acceptable_js options"
    and "length (filter (\<lambda>(k, v). k \<in> set textOptions) options) \<le> 1"
  shows "validateOptions_js options = Inr ()"
  unfolding validateOptions_js_def
  using loop_js_acceptable[of "own_entries options" 0] assms
  by (simp add: list_all_own_entries own_entries_count)

lemma validateOptions_p2_accepts:
  assumes "list_all acceptable_p2 options"
    and "length (filter (\<lambda>(k, v). k \<in> set textOptions) options) \<le> 1"
  shows "validateOptions_p2 options = Inr ()"
  unfolding validateOptions_p2_def
  using loop_p2_acceptable[of "own_entries options" 0] assms
  by (simp add: list_all_own_entries own_entries_count)

text \<open>
  Claim C6. Validation fails with a type error naming the key whenever \<^verbatim>\<open>exactText\<close> or
  \<^verbatim>\<open>containsText\<close> is present with a value that is not a string, or \<^verbatim>\<open>matches\<close> with
  a value that is not a regular expression.

  The code at the inputs where it does not: part_002 and part_003 guard the string test
  with \<^verbatim>\<open>/text/.test(key)\<close>, which no key passes (the keys spell \<^verbatim>\<open>Text\<close>), so a
  regular expression as \<^verbatim>\<open>exactText\<close> and a number as \<^verbatim>\<open>containsText\<close> are let
  through by part_002; part_003 rejects \<^verbatim>\<open>exactText\<close> as an invalid option, by its
  first test; \<^verbatim>\<open>src/portascrape.js\<close> accepts a regular expression under any matcher.
  The test of \<^verbatim>\<open>matches\<close> does work in part_002.
\<close>

theorem matcher_type_check_misses_text_keys:
  "validateOptions_p2 (merge_options (Some [(''exactText'', JRegExp ''x'')])) = Inr ()
   \<and> validateOptions_p2 (merge_options (Some [(''containsText'', JNum 5)])) = Inr ()
   \<and> validateOptions_p3 [(''exactText'', JRegExp ''x'')] = Inl (invalid_option ''exactText'')
   \<and> validateOptions_js (merge_options (Some [(''exactText'', JRegExp ''x'')])) = Inr ()
   \<and> validateOptions_p2 (merge_options (Some [(''matches'', JStr ''x'')]))
       = Inl (JError TypeErr (quoted ''matches'' @ '' must be a RegExp.''))"
  by code_simp

text \<open>
  Claim C7. An options value with only recognised keys (and at most one text matcher of
  the right type) passes validation, and one with another key fails with an "invalid
  option" error naming it, thrown before any timer or observer exists.

  The code of part_003 at every input: the merged options hold the default
  \<^verbatim>\<open>timeout\<close> first, the validator throws for the keys that are in \<^verbatim>\<open>validKeys\<close>, and
  so every call of \<^verbatim>\<open>wait\<close> throws "Invalid option 'timeout' provided."; an options
  value with the one key \<^verbatim>\<open>foo\<close> passes the validator.
\<close>

theorem validateOptions_p3_rejects_recognised_keys:
  "validateOptions_p3 (merge_options options) = Inl (invalid_option ''timeout'')
   \<and> wait fn options = Threw (invalid_option ''timeout'')
   \<and> validateOptions_p3 [(''foo'', JNum 1)] = Inr ()"
proof -
  have "validateOptions_p3 [(''foo'', JNum 1)] = Inr ()"
    by code_simp
  then show ?thesis
    by (simp add: wait_def validate_p3_merged)
qed

lemma loop_js_upto:
  "n \<le> 1 \<Longrightarrow> 2 \<le> n + length (filter (\<lambda>(k, v). k \<in> set textOptions) es)
   \<Longrightarrow> validate_loop_js es n
       = Inl (case find (\<lambda>kv. \<not> acceptable_js kv) (upto_second_matcher es n) of
                None \<Rightarrow> conflicting_matchers
              | Some (k, v) \<Rightarrow>
                  if k \<in> set validKeys
                  then JError TypeErr (quoted k @ '' must be a string or RegExp.'')
                  else invalid_option k)"
proof (induction es arbitrary: n)
  case Nil
  then show ?case by simp
next
  case (Cons a es)
  obtain k v where a: "a = (k, v)" by (cases a)
  show ?case
  proof (cases "k \<in> set textOptions")
    case True
    then have vk: "k \<in> set validKeys" by (auto simp: textOptions_def validKeys_def)
    show ?thesis
    proof (cases "n = 0")
      case True
      then show ?thesis
        using Cons.prems Cons.IH[of "Suc 0"] a \<open>k \<in> set textOptions\<close> vk
        by (simp add: acceptable_js_def)
    next
      case False
      then have "n = 1" using Cons.prems by simp
      then show ?thesis
        using a \<open>k \<in> set textOptions\<close> vk by (simp add: acceptable_js_def)
    qed
  next
    case False
    then show ?thesis using Cons.prems Cons.IH[of n] a by (simp add: acceptable_js_def)
  qed
qed

lemma loop_p2_upto:
  "n \<le> 1 \<Longrightarrow> 2 \<le> n + length (filter (\<lambda>(k, v). k \<in> set textOptions) es)
   \<Longrightarrow> validate_loop_p2 es n
       = Inl (case find (\<lambda>kv. \<not> acceptable_p2 kv) (upto_second_matcher es n) of
                None \<Rightarrow> conflicting_matchers
              | Some (k, v) \<Rightarrow>
                  if k \<in> set validKeys
                  then JError TypeErr (quoted k @ '' must be a RegExp.'')
                  else invalid_option k)"
proof (induction es arbitrary: n)
  case Nil
  then show ?case by simp
next
  case (Cons a es)
  obtain k v where a: "a = (k, v)" by (cases a)
  show ?case
  proof (cases "k \<in> set textOptions")
    case True
    then have vk: "k \<in> set validKeys" by (auto simp: textOptions_def validKeys_def)
    have nt: "\<not> js_includes k ''text''" using True text_key_no_text by blast
    have acc: "acceptable_p2 (k, v) = (k = ''matches'' \<longrightarrow> is_regexp v)"
      using vk by (simp add: acceptable_p2_def)
    show ?thesis
    proof (cases "acceptable_p2 (k, v)")
      case False
      then show ?thesis using a True vk nt acc by simp
    next
      case acceptable: True
      show ?thesis
      proof (cases "n = 0")
        case True
        then show ?thesis
          using Cons.prems Cons.IH[of "Suc 0"] a \<open>k \<in> set textOptions\<close> vk nt acc acceptable
          by auto
      next
        case False
        then have "n = 1" using Cons.prems by simp
        then show ?thesis
          using a \<open>k \<in> set textOptions\<close> vk nt acc acceptable by auto
      qed
    qed
  next
    case False
    then have nm: "k \<noteq> ''matches''" by (auto simp: textOptions_def)
    have acc: "acceptable_p2 (k, v) = (k \<in> set validKeys)"
      using nm by (simp add: acceptable_p2_def)
    show ?thesis using Cons.prems Cons.IH[of n] a False acc by simp
  qed
qed

text \<open>
  Claim C8, as amended. When two distinct keys of \<^verbatim>\<open>exactText\<close>, \<^verbatim>\<open>containsText\<close>,
  \<^verbatim>\<open>matches\<close> are both present, validation always fails (\<^verbatim>\<open>src/portascrape.js\<close> and
  part_002). Of the properties enumerated up to and including the second text matcher,
  the first one that the validator does not accept decides the error: the unknown-option
  error for a key that is not recognised, the type error for a matcher whose value is of
  a type the validator tests against. When there is none, the error is the
  conflicting-matcher error. Properties enumerated after the second text matcher play no
  part.
\<close>

theorem two_matchers_fail:
  assumes "k1 \<in> set textOptions" "k2 \<in> set textOptions" "k1 \<noteq> k2"
    and "k1 \<in> fst ` set options" "k2 \<in> fst ` set options"
  shows "validateOptions_js options
           = Inl (case find (\<lambda>kv. \<not> acceptable_js kv)
                         (upto_second_matcher (own_entries options) 0) of
                    None \<Rightarrow> conflicting_matchers
                  | Some (k, v) \<Rightarrow>
                      if k \<in> set validKeys
                      then JError TypeErr (quoted k @ '' must be a string or RegExp.'')
                      else invalid_option k)
       \<and> validateOptions_p2 options
           = Inl (case find (\<lambda>kv. \<not> acceptable_p2 kv)
                         (upto_second_matcher (own_entries options) 0) of
                    None \<Rightarrow> conflicting_matchers
                  | Some (k, v) \<Rightarrow>
                      if k \<in> set validKeys
                      then JError TypeErr (quoted k @ '' must be a RegExp.'')
                      else invalid_option k)"
proof -
  have two: "2 \<le> 0 + length (filter (\<lambda>(k, v). k \<in> set textOptions) (own_entries options))"
    using two_text_keys[OF assms] by (simp add: own_entries_count)
  show ?thesis
    unfolding validateOptions_js_def validateOptions_p2_def
    using loop_js_upto[OF _ two] loop_p2_upto[OF _ two] by simp
qed

theorem two_matchers_fail_witness:
  "''exactText'' \<in> set textOptions \<and> ''containsText'' \<in> set textOptions
   \<and> ''matches'' \<in> set textOptions
   \<and> ''exactText'' \<noteq> ''containsText'' \<and> ''exactText'' \<noteq> ''matches''
   \<and> ''exactText'' \<in> fst ` set (merge_options (Some
         [(''exactText'', JStr ''a''), (''containsText'', JStr ''b''), (''foo'', JNum 1)]))
   \<and> ''containsText'' \<in> fst ` set (merge_options (Some
         [(''exactText'', JStr ''a''), (''containsText'', JStr ''b''), (''foo'', JNum 1)]))
   \<and> validateOptions_js (merge_options (Some
         [(''exactText'', JStr ''a''), (''containsText'', JStr ''b''), (''foo'', JNum 1)]))
       = Inl conflicting_matchers
   \<and> validateOptions_p2 (merge_options (Some
         [(''exactText'', JStr ''a''), (''containsText'', JStr ''b''), (''foo'', JNum 1)]))
       = Inl conflicting_matchers
   \<and> ''exactText'' \<in> fst ` set (merge_options (Some
         [(''foo'', JNum 1), (''exactText'', JStr ''a''), (''matches'', JRegExp ''b'')]))
   \<and> ''matches'' \<in> fst ` set (merge_options (Some
         [(''foo'', JNum 1), (''exactText'', JStr ''a''), (''matches'', JRegExp ''b'')]))
   \<and> validateOptions_js (merge_options (Some
         [(''foo'', JNum 1), (''exactText'', JStr ''a''), (''matches'', JRegExp ''b'')]))
       = Inl (invalid_option ''foo'')
   \<and> validateOptions_p2 (merge_options (Some
         [(''foo'', JNum 1), (''exactText'', JStr ''a''), (''matches'', JRegExp ''b'')]))
       = Inl (invalid_option ''foo'')
   \<and> ''exactText'' \<in> fst ` set (merge_options (Some
         [(''exactText'', JStr ''a''), (''matches'', JNum 5)]))
   \<and> ''matches'' \<in> fst ` set (merge_options (Some
         [(''exactText'', JStr ''a''), (''matches'', JNum 5)]))
   \<and> validateOptions_js (merge_options (Some
         [(''exactText'', JStr ''a''), (''matches'', JNum 5)]))
       = Inl (JError TypeErr (quoted ''matches'' @ '' must be a string or RegExp.''))
   \<and> validateOptions_p2 (merge_options (Some
         [(''exactText'', JStr ''a''), (''matches'', JNum 5)]))
       = Inl (JError TypeErr (quoted ''matches'' @ '' must be a RegExp.''))"
proof -
  let ?a = "[(''timeout'', JNum 10000), (''polling'', JStr ''raf''),
             (''exactText'', JStr ''a''), (''containsText'', JStr ''b''), (''foo'', JNum 1)]"
  let ?b = "[(''timeout'', JNum 10000), (''polling'', JStr ''raf''),
             (''foo'', JNum 1), (''exactText'', JStr ''a''), (''matches'', JRegExp ''b'')]"
  let ?c = "[(''timeout'', JNum 10000), (''polling'', JStr ''raf''),
             (''exactText'', JStr ''a''), (''matches'', JNum 5)]"
  have ma: "merge_options (Some
         [(''exactText'', JStr ''a''), (''containsText'', JStr ''b''), (''foo'', JNum 1)]) = ?a"
    by code_simp
  have mb: "merge_options (Some
         [(''foo'', JNum 1), (''exactText'', JStr ''a''), (''matches'', JRegExp ''b'')]) = ?b"
    by code_simp
  have mc: "merge_options (Some [(''exactText'', JStr ''a''), (''matches'', JNum 5)]) = ?c"
    by code_simp
  have oa: "own_entries ?a = ?a" by code_simp
  have ob: "own_entries ?b = ?b" by code_simp
  have oc: "own_entries ?c = ?c" by code_simp
  have h: "''exactText'' \<in> set textOptions" "''containsText'' \<in> set textOptions"
    "''matches'' \<in> set textOptions"
    "''exactText'' \<noteq> ''containsText''" "''exactText'' \<noteq> ''matches''"
    by (simp_all add: textOptions_def)
  have ta: "validateOptions_js ?a = Inl conflicting_matchers
            \<and> validateOptions_p2 ?a = Inl conflicting_matchers"
    using two_matchers_fail[OF h(1) h(2) h(4), of ?a]
    by (simp add: oa acceptable_js_def acceptable_p2_def validKeys_def textOptions_def)
  have tb: "validateOptions_js ?b = Inl (invalid_option ''foo'')
            \<and> validateOptions_p2 ?b = Inl (invalid_option ''foo'')"
    using two_matchers_fail[OF h(1) h(3) h(5), of ?b]
    by (simp add: ob acceptable_js_def acceptable_p2_def validKeys_def textOptions_def)
  have tc: "validateOptions_js ?c
              = Inl (JError TypeErr (quoted ''matches'' @ '' must be a string or RegExp.''))
            \<and> validateOptions_p2 ?c
              = Inl (JError TypeErr (quoted ''matches'' @ '' must be a RegExp.''))"
    using two_matchers_fail[OF h(1) h(3) h(5), of ?c]
    by (simp add: oc acceptable_js_def acceptable_p2_def validKeys_def textOptions_def)
  show ?thesis unfolding ma mb mc using h ta tb tc by simp
qed

text \<open>
  The claim as stated (the conflicting-matcher error whatever the values) fails where a
  matcher has a value of the wrong type: the type error of that key is thrown first.
\<close>

theorem two_matchers_other_error_counterexample:
  "validateOptions_js (merge_options (Some [(''exactText'', JStr ''a''), (''matches'', JNum 5)]))
     = Inl (JError TypeErr (quoted ''matches'' @ '' must be a string or RegExp.''))
   \<and> validateOptions_js (merge_options (Some [(''exactText'', JStr ''a''), (''matches'', JNum 5)]))
     \<noteq> Inl conflicting_matchers
   \<and> validateOptions_p2 (merge_options (Some [(''exactText'', JStr ''a''), (''matches'', JStr ''b'')]))
     = Inl (JError TypeErr (quoted ''matches'' @ '' must be a RegExp.''))
   \<and> validateOptions_p2 (merge_options (Some [(''exactText'', JStr ''a''), (''matches'', JStr ''b'')]))
     \<noteq> Inl conflicting_matchers"
  by code_simp

section \<open>Properties of the wait engine\<close>



lemma poll_falsy:
  assumes "fn (evals s) = Returns v" "\<not> truthy v"
  shows "settled (poll c fn polling s) = settled s"
    and "timeout_timer (poll c fn polling s) = timeout_timer s"
  using assms by (simp_all add: poll_def)

lemma on_mutation_falsy:
  assumes "fn (evals s) = Returns v" "\<not> truthy v"
  shows "settled (on_mutation fn s) = settled s"
    and "timeout_timer (on_mutation fn s) = timeout_timer s"
  using assms by (simp_all add: on_mutation_def)

lemma poll_other:
  "\<not> is_number polling \<Longrightarrow> poll c fn polling s = poll c fn (JStr ''raf'') s"
  by (simp add: poll_def)

lemma insort_key_map:
  "insort_key f (g x) (map g ys) = map g (insort_key (\<lambda>a. f (g a)) x ys)"
  by (induction ys) simp_all

lemma sort_key_map: "sort_key f (map g xs) = map g (sort_key (\<lambda>a. f (g a)) xs)"
  by (induction xs) (simp_all add: insort_key_map)

lemma own_entries_with_polling: "own_entries (with_polling p ob) = with_polling p (own_entries ob)"
proof -
  let ?g = "\<lambda>(k, x). (k, if k = ''polling'' then p else x)"
  have f1: "(\<lambda>(k, v). is_array_index k) \<circ> ?g = (\<lambda>(k, v). is_array_index k)" by auto
  have f2: "(\<lambda>(k, v). \<not> is_array_index k) \<circ> ?g = (\<lambda>(k, v). \<not> is_array_index k)" by auto
  have f3: "(\<lambda>a. (case ?g a of (k, v) \<Rightarrow> digits_value k)) = (\<lambda>(k, v). digits_value k)" by auto
  show ?thesis
    unfolding own_entries_def with_polling_def
    by (simp add: filter_map sort_key_map f1 f2 f3)
qed

lemma polling_not_text: "''polling'' \<notin> set textOptions"
  by (simp add: textOptions_def)

lemma loop_js_with_polling: "validate_loop_js (with_polling p es) n = validate_loop_js es n"
proof (induction es arbitrary: n)
  case Nil
  then show ?case by (simp add: with_polling_def)
next
  case (Cons a es)
  obtain k v where a: "a = (k, v)" by (cases a)
  have "with_polling p (a # es) = (k, if k = ''polling'' then p else v) # with_polling p es"
    by (simp add: with_polling_def a)
  then show ?case using Cons.IH a polling_not_text by auto
qed

lemma loop_p2_with_polling: "validate_loop_p2 (with_polling p es) n = validate_loop_p2 es n"
proof (induction es arbitrary: n)
  case Nil
  then show ?case by (simp add: with_polling_def)
next
  case (Cons a es)
  obtain k v where a: "a = (k, v)" by (cases a)
  have "with_polling p (a # es) = (k, if k = ''polling'' then p else v) # with_polling p es"
    by (simp add: with_polling_def a)
  then show ?case using Cons.IH a polling_not_text by auto
qed

lemma loop_p3_with_polling: "validate_loop_p3 (with_polling p es) n = validate_loop_p3 es n"
proof (induction es arbitrary: n)
  case Nil
  then show ?case by (simp add: with_polling_def)
next
  case (Cons a es)
  obtain k v where a: "a = (k, v)" by (cases a)
  have "with_polling p (a # es) = (k, if k = ''polling'' then p else v) # with_polling p es"
    by (simp add: with_polling_def a)
  then show ?case using Cons.IH a polling_not_text by auto
qed



text \<open>
  Claim C1. Once the wait settles by timeout rejection, the polling timer or the mutation
  observer is released and the predicate is never evaluated again.

  The code at a predicate that is always \<^verbatim>\<open>null\<close> (as the predicate of \<^verbatim>\<open>$\<close> is
  while no element matches), with a timeout of 1000 ms: the timeout callback only
  rejects. Under \<^verbatim>\<open>"raf"\<close> the frame request stays pending after the rejection, the
  next frame evaluates the predicate a third time and requests another frame; under
  \<^verbatim>\<open>"mutation"\<close> the observer stays attached and the next mutation evaluates the
  predicate again (part_003, and the same for the observer of \<^verbatim>\<open>src/portascrape.js\<close>,
  whose executor \<^verbatim>\<open>$\<close> reaches with these options).
\<close>

theorem timeout_rejection_leaves_polling_active:
  "settled (run (always JNull) 1000 (JStr ''raf'') [TimeoutFires]
             (wait_executor (always JNull) 1000 (JStr ''raf'')))
     = Rejected (JError PlainError (timeout_message 1000))
   \<and> poll_frame (run (always JNull) 1000 (JStr ''raf'') [TimeoutFires]
             (wait_executor (always JNull) 1000 (JStr ''raf'')))
   \<and> evals (run (always JNull) 1000 (JStr ''raf'') [TimeoutFires]
             (wait_executor (always JNull) 1000 (JStr ''raf''))) = 2
   \<and> evals (run (always JNull) 1000 (JStr ''raf'') [TimeoutFires, FrameTick]
             (wait_executor (always JNull) 1000 (JStr ''raf''))) = 3
   \<and> poll_frame (run (always JNull) 1000 (JStr ''raf'') [TimeoutFires, FrameTick]
             (wait_executor (always JNull) 1000 (JStr ''raf'')))
   \<and> observer (run (always JNull) 1000 (JStr ''mutation'') [TimeoutFires]
             (wait_executor (always JNull) 1000 (JStr ''mutation'')))
   \<and> evals (run (always JNull) 1000 (JStr ''mutation'') [TimeoutFires]
             (wait_executor (always JNull) 1000 (JStr ''mutation''))) = 1
   \<and> evals (run (always JNull) 1000 (JStr ''mutation'') [TimeoutFires, Mutation]
             (wait_executor (always JNull) 1000 (JStr ''mutation''))) = 2
   \<and> settled (fold (fire_js (always JNull) 1000) [TimeoutFires]
             (waitForFunction_executor (always JNull) 1000 (JStr ''mutation'')))
     = Rejected (JStr (timeout_message 1000))
   \<and> observer (fold (fire_js (always JNull) 1000) [TimeoutFires]
             (waitForFunction_executor (always JNull) 1000 (JStr ''mutation'')))
   \<and> evals (fold (fire_js (always JNull) 1000) [TimeoutFires, Mutation]
             (waitForFunction_executor (always JNull) 1000 (JStr ''mutation''))) = 2
   \<and> waitForFunction (always JNull)
         (Some [(''timeout'', JNum 1000), (''polling'', JStr ''mutation'')])
       = Promise (waitForFunction_executor (always JNull) 1000 (JStr ''mutation''))
   \<and> dollar_predicate_js no_match (\<lambda>selector. Inr []) ''#missing''
         (Some \<lparr>exactText = None, containsText = None, matches = None\<rparr>) = always JNull 0"
proof -
  have d: "dollar_predicate_js no_match (\<lambda>selector. Inr []) ''#missing''
         (Some \<lparr>exactText = None, containsText = None, matches = None\<rparr>) = always JNull 0"
    by (simp add: dollar_predicate_js_def querySelector_def always_def)
  have m: "merge_options (Some [(''timeout'', JNum 1000), (''polling'', JStr ''mutation'')])
           = [(''timeout'', JNum 1000), (''polling'', JStr ''mutation'')]"
    by code_simp
  have v: "validateOptions_js [(''timeout'', JNum 1000), (''polling'', JStr ''mutation'')] = Inr ()"
    by code_simp
  have w: "waitForFunction (always JNull)
             (Some [(''timeout'', JNum 1000), (''polling'', JStr ''mutation'')])
           = Promise (waitForFunction_executor (always JNull) 1000 (JStr ''mutation''))"
    by (simp add: waitForFunction_def m v get_def)
  have r: "settled (run (always JNull) 1000 (JStr ''raf'') [TimeoutFires]
             (wait_executor (always JNull) 1000 (JStr ''raf'')))
     = Rejected (JError PlainError (timeout_message 1000))
   \<and> poll_frame (run (always JNull) 1000 (JStr ''raf'') [TimeoutFires]
             (wait_executor (always JNull) 1000 (JStr ''raf'')))
   \<and> evals (run (always JNull) 1000 (JStr ''raf'') [TimeoutFires]
             (wait_executor (always JNull) 1000 (JStr ''raf''))) = 2
   \<and> evals (run (always JNull) 1000 (JStr ''raf'') [TimeoutFires, FrameTick]
             (wait_executor (always JNull) 1000 (JStr ''raf''))) = 3
   \<and> poll_frame (run (always JNull) 1000 (JStr ''raf'') [TimeoutFires, FrameTick]
             (wait_executor (always JNull) 1000 (JStr ''raf'')))
   \<and> observer (run (always JNull) 1000 (JStr ''mutation'') [TimeoutFires]
             (wait_executor (always JNull) 1000 (JStr ''mutation'')))
   \<and> evals (run (always JNull) 1000 (JStr ''mutation'') [TimeoutFires]
             (wait_executor (always JNull) 1000 (JStr ''mutation''))) = 1
   \<and> evals (run (always JNull) 1000 (JStr ''mutation'') [TimeoutFires, Mutation]
             (wait_executor (always JNull) 1000 (JStr ''mutation''))) = 2
   \<and> settled (fold (fire_js (always JNull) 1000) [TimeoutFires]
             (waitForFunction_executor (always JNull) 1000 (JStr ''mutation'')))
     = Rejected (JStr (timeout_message 1000))
   \<and> observer (fold (fire_js (always JNull) 1000) [TimeoutFires]
             (waitForFunction_executor (always JNull) 1000 (JStr ''mutation'')))
   \<and> evals (fold (fire_js (always JNull) 1000) [TimeoutFires, Mutation]
             (waitForFunction_executor (always JNull) 1000 (JStr ''mutation''))) = 2"
    by (simp add: run_def wait_executor_def waitForFunction_executor_def always_def initial_def
          poll_def on_mutation_def reject_def Let_def)
  show ?thesis using r w d by blast
qed

lemma timeout_message_0: "timeout_message 0 = ''timeout of 0ms exceeded waiting for function to return true''"
  by code_simp

lemma timeout_message_1000: "timeout_message 1000 = ''timeout of 1000ms exceeded waiting for function to return true''"
  by code_simp

lemma fire_p2_idle:
  "\<not> timeout_timer s \<Longrightarrow> \<not> poll_timer s \<Longrightarrow> \<not> poll_frame s \<Longrightarrow> \<not> observer s
   \<Longrightarrow> fire_p2 fn timeout polling ev s = s"
  by (cases ev) simp_all

lemma run_p2_idle:
  "\<not> timeout_timer s \<Longrightarrow> \<not> poll_timer s \<Longrightarrow> \<not> poll_frame s \<Longrightarrow> \<not> observer s
   \<Longrightarrow> run_p2 fn timeout polling events s = s"
  unfolding run_p2_def by (induction events) (simp_all add: fire_p2_idle)

lemma fire_p2_keeps_pending:
  assumes "\<forall>k. \<exists>v. fn k = Returns v \<and> \<not> truthy v"
    and "settled s = Pending" and "\<not> timeout_timer s"
  shows "settled (fire_p2 fn timeout polling ev s) = Pending
         \<and> \<not> timeout_timer (fire_p2 fn timeout polling ev s)"
proof -
  obtain v where v: "fn (evals s) = Returns v" "\<not> truthy v" using assms(1) by blast
  show ?thesis
  proof (cases ev)
    case TimeoutFires
    then show ?thesis using assms by simp
  next
    case PollTimerFires
    then show ?thesis
      using assms v poll_falsy[of fn "s\<lparr>poll_timer := False\<rparr>" v InCallback polling] by simp
  next
    case FrameTick
    then show ?thesis
      using assms v poll_falsy[of fn "s\<lparr>poll_frame := False\<rparr>" v InCallback polling] by simp
  next
    case Mutation
    then show ?thesis using assms v on_mutation_falsy[of fn s v] by simp
  qed
qed

lemma run_p2_keeps_pending:
  assumes "\<forall>k. \<exists>v. fn k = Returns v \<and> \<not> truthy v"
    and "settled s = Pending" and "\<not> timeout_timer s"
  shows "settled (run_p2 fn timeout polling events s) = Pending
         \<and> \<not> timeout_timer (run_p2 fn timeout polling events s)"
  using assms(2,3) unfolding run_p2_def
proof (induction events arbitrary: s)
  case Nil
  then show ?case by simp
next
  case (Cons ev events)
  then show ?case using fire_p2_keeps_pending[OF assms(1), of s timeout polling ev] by simp
qed

lemma executor_p2_zero_pending:
  assumes "\<forall>k. \<exists>v. fn k = Returns v \<and> \<not> truthy v"
  shows "settled (wait_executor_p2 fn 0 polling) = Pending
         \<and> \<not> timeout_timer (wait_executor_p2 fn 0 polling)
         \<and> timers_created (wait_executor_p2 fn 0 polling)
             = (if is_number polling then 1 else 0)"
proof -
  obtain v0 where v0: "fn 0 = Returns v0" "\<not> truthy v0" using assms by blast
  obtain v1 where v1: "fn 1 = Returns v1" "\<not> truthy v1" using assms by blast
  show ?thesis
    using v0 v1 by (auto simp add: wait_executor_p2_def initial_def poll_def Let_def)
qed

text \<open>
  In part_002, where the guard of part_003 is reached, a call with \<^verbatim>\<open>timeout\<close> 0 and a
  predicate that stays falsy does what claim C2 says: whatever the host does next, the
  promise is pending and no timeout timer is armed.
\<close>

lemma wait_p2_timeout_zero_stays_pending:
  assumes "\<forall>k. \<exists>v. fn k = Returns v \<and> \<not> truthy v"
    and "validateOptions_p2 (merge_options options) = Inr ()"
    and "get (merge_options options) ''timeout'' = JNum 0"
  shows "wait_p2 fn options
           = Promise (wait_executor_p2 fn 0 (get (merge_options options) ''polling''))
       \<and> settled (run_p2 fn 0 (get (merge_options options) ''polling'') events
                   (wait_executor_p2 fn 0 (get (merge_options options) ''polling''))) = Pending
       \<and> \<not> timeout_timer (run_p2 fn 0 (get (merge_options options) ''polling'') events
                   (wait_executor_p2 fn 0 (get (merge_options options) ''polling'')))"
  using assms(2,3)
    run_p2_keeps_pending[OF assms(1), of "wait_executor_p2 fn 0 (get (merge_options options) ''polling'')"
      0 "get (merge_options options) ''polling''" events]
    executor_p2_zero_pending[OF assms(1), of "get (merge_options options) ''polling''"]
  by (simp add: wait_p2_def)

text \<open>
  Claim C2. With \<^verbatim>\<open>timeout\<close> equal to 0 and a predicate that stays falsy, the wait never
  rejects due to timeout: no timeout timer is armed and the call remains pending.

  The code at a predicate that is always \<^verbatim>\<open>null\<close> and options with \<^verbatim>\<open>timeout\<close> 0.
  \<^verbatim>\<open>wait\<close> of part_003 throws \<^verbatim>\<open>Error("Invalid option 'timeout' provided.")\<close> from
  its validation: no promise is returned and the guard of line 61 is not reached.
  \<^verbatim>\<open>waitForFunction\<close> of \<^verbatim>\<open>src/portascrape.js\<close>, called by \<^verbatim>\<open>$\<close> for a selector
  that matches nothing, arms the timeout timer (with delay 0) and is rejected with the
  timeout message when that timer fires.
\<close>

theorem timeout_zero_throws_or_rejects:
  "wait (always JNull) (Some [(''timeout'', JNum 0)]) = Threw (invalid_option ''timeout'')
   \<and> wait (always JNull) (Some [(''timeout'', JNum 0), (''polling'', JStr ''mutation'')])
       = Threw (invalid_option ''timeout'')
   \<and> waitForFunction (always JNull) (Some [(''timeout'', JNum 0), (''polling'', JStr ''mutation'')])
       = Promise (waitForFunction_executor (always JNull) 0 (JStr ''mutation''))
   \<and> dollar_js no_match (\<lambda>k selector. Inr []) ''#missing''
         (Some [(''timeout'', JNum 0), (''polling'', JStr ''mutation'')])
       = Promise (waitForFunction_executor (always JNull) 0 (JStr ''mutation''))
   \<and> settled (waitForFunction_executor (always JNull) 0 (JStr ''mutation'')) = Pending
   \<and> timeout_timer (waitForFunction_executor (always JNull) 0 (JStr ''mutation''))
   \<and> timers_created (waitForFunction_executor (always JNull) 0 (JStr ''mutation'')) = 1
   \<and> settled (fold (fire_js (always JNull) 0) [TimeoutFires]
                (waitForFunction_executor (always JNull) 0 (JStr ''mutation'')))
       = Rejected (JStr ''timeout of 0ms exceeded waiting for function to return true'')"
proof -
  let ?o = "[(''timeout'', JNum 0), (''polling'', JStr ''mutation'')]"
  have m1: "merge_options (Some [(''timeout'', JNum 0)])
            = [(''timeout'', JNum 0), (''polling'', JStr ''raf'')]"
    by code_simp
  have m2: "merge_options (Some ?o) = ?o" by code_simp
  have p1: "validateOptions_p3 [(''timeout'', JNum 0), (''polling'', JStr ''raf'')]
            = Inl (invalid_option ''timeout'')" by code_simp
  have p2: "validateOptions_p3 ?o = Inl (invalid_option ''timeout'')" by code_simp
  have v: "validateOptions_js ?o = Inr ()" by code_simp
  have a: "wait (always JNull) (Some [(''timeout'', JNum 0)]) = Threw (invalid_option ''timeout'')"
    by (simp add: wait_def m1 p1)
  have b: "wait (always JNull) (Some ?o) = Threw (invalid_option ''timeout'')"
    by (simp add: wait_def m2 p2)
  have c: "waitForFunction (always JNull) (Some ?o)
           = Promise (waitForFunction_executor (always JNull) 0 (JStr ''mutation''))"
    by (simp add: waitForFunction_def m2 v get_def)
  have f: "(\<lambda>k. dollar_predicate_js no_match (\<lambda>selector. Inr []) ''#missing''
                 (Some \<lparr>exactText = None, containsText = None, matches = None\<rparr>)) = always JNull"
    by (simp add: dollar_predicate_js_def querySelector_def always_def)
  have t: "typed_text_options ?o = Some \<lparr>exactText = None, containsText = None, matches = None\<rparr>"
    by (simp add: typed_text_options_def get_def)
  have d: "dollar_js no_match (\<lambda>k selector. Inr []) ''#missing'' (Some ?o)
           = Promise (waitForFunction_executor (always JNull) 0 (JStr ''mutation''))"
    by (simp add: dollar_js_def t f c)
  have e: "settled (waitForFunction_executor (always JNull) 0 (JStr ''mutation'')) = Pending
   \<and> timeout_timer (waitForFunction_executor (always JNull) 0 (JStr ''mutation''))
   \<and> timers_created (waitForFunction_executor (always JNull) 0 (JStr ''mutation'')) = 1
   \<and> settled (fold (fire_js (always JNull) 0) [TimeoutFires]
                (waitForFunction_executor (always JNull) 0 (JStr ''mutation'')))
       = Rejected (JStr (timeout_message 0))"
    by (simp add: waitForFunction_executor_def always_def initial_def reject_def Let_def)
  show ?thesis using a b c d e unfolding timeout_message_0 by blast
qed

text \<open>
  Claim C3. If the predicate throws at any evaluation, the initial synchronous check or
  a later re-check run by a timer, an animation frame or a mutation notification, the
  wait settles as a failure immediately with that error and the predicate is not
  retried.

  The code at a predicate that returns \<^verbatim>\<open>null\<close> at first and then throws an error
  \<^verbatim>\<open>boom\<close>. \<^verbatim>\<open>wait\<close> of part_002 with \<^verbatim>\<open>polling: "mutation"\<close> and a timeout of
  1000 ms: the exception thrown in the observer callback is uncaught, the promise stays
  pending and the observer attached; the next mutation evaluates the predicate again;
  the wait ends by the timeout, with the timeout message. With the default polling and
  \<^verbatim>\<open>timeout\<close> 0, after the throw in the frame callback the promise is pending with no
  frame, timer or observer left: it never settles. A throw while the executor runs (at
  the first evaluation) rejects the promise with the error. The observer callback of \<^verbatim>\<open>waitForFunction\<close> in
  \<^verbatim>\<open>src/portascrape.js\<close> does the same as that of part_002. \<^verbatim>\<open>wait\<close> of part_003 has
  the statements of part_002 in its callbacks, and throws from its validation before
  the predicate is evaluated at all.
\<close>

theorem predicate_throw_in_callback_is_lost:
  "wait_p2 (throws_from 1 (JError PlainError ''boom''))
       (Some [(''timeout'', JNum 1000), (''polling'', JStr ''mutation'')])
     = Promise (wait_executor_p2 (throws_from 1 (JError PlainError ''boom'')) 1000 (JStr ''mutation''))
   \<and> run_p2 (throws_from 1 (JError PlainError ''boom'')) 1000 (JStr ''mutation'') [Mutation]
         (wait_executor_p2 (throws_from 1 (JError PlainError ''boom'')) 1000 (JStr ''mutation''))
     = initial\<lparr>settled := Pending, evals := 2, timeout_timer := True, observer := True,
               timers_created := 1, observers_created := 1,
               uncaught := [JError PlainError ''boom'']\<rparr>
   \<and> run_p2 (throws_from 1 (JError PlainError ''boom'')) 1000 (JStr ''mutation'')
         [Mutation, Mutation]
         (wait_executor_p2 (throws_from 1 (JError PlainError ''boom'')) 1000 (JStr ''mutation''))
     = initial\<lparr>settled := Pending, evals := 3, timeout_timer := True, observer := True,
               timers_created := 1, observers_created := 1,
               uncaught := [JError PlainError ''boom'', JError PlainError ''boom'']\<rparr>
   \<and> settled (run_p2 (throws_from 1 (JError PlainError ''boom'')) 1000 (JStr ''mutation'')
         [Mutation, TimeoutFires]
         (wait_executor_p2 (throws_from 1 (JError PlainError ''boom'')) 1000 (JStr ''mutation'')))
     = Rejected (JStr ''timeout of 1000ms exceeded waiting for function to return true'')
   \<and> wait_p2 (throws_from 2 (JError PlainError ''boom'')) (Some [(''timeout'', JNum 0)])
     = Promise (wait_executor_p2 (throws_from 2 (JError PlainError ''boom'')) 0 (JStr ''raf''))
   \<and> run_p2 (throws_from 2 (JError PlainError ''boom'')) 0 (JStr ''raf'') [FrameTick]
         (wait_executor_p2 (throws_from 2 (JError PlainError ''boom'')) 0 (JStr ''raf''))
     = initial\<lparr>settled := Pending, evals := 3, frames_requested := 1,
               uncaught := [JError PlainError ''boom'']\<rparr>
   \<and> wait_p2 (throws_from 0 (JError PlainError ''boom'')) None
     = Promise (initial\<lparr>settled := Rejected (JError PlainError ''boom''), evals := 1\<rparr>)
   \<and> waitForFunction (throws_from 1 (JError PlainError ''boom''))
       (Some [(''timeout'', JNum 1000), (''polling'', JStr ''mutation'')])
     = Promise (waitForFunction_executor (throws_from 1 (JError PlainError ''boom'')) 1000
                  (JStr ''mutation''))
   \<and> fold (fire_js (throws_from 1 (JError PlainError ''boom'')) 1000) [Mutation, Mutation]
         (waitForFunction_executor (throws_from 1 (JError PlainError ''boom'')) 1000
            (JStr ''mutation''))
     = initial\<lparr>settled := Pending, evals := 3, timeout_timer := True, observer := True,
               timers_created := 1, observers_created := 1,
               uncaught := [JError PlainError ''boom'', JError PlainError ''boom'']\<rparr>
   \<and> wait (throws_from 1 (JError PlainError ''boom''))
       (Some [(''timeout'', JNum 1000), (''polling'', JStr ''mutation'')])
     = Threw (invalid_option ''timeout'')"
proof -
  let ?o = "[(''timeout'', JNum 1000), (''polling'', JStr ''mutation'')]"
  let ?z = "[(''timeout'', JNum 0), (''polling'', JStr ''raf'')]"
  let ?b = "JError PlainError ''boom''"
  have m: "merge_options (Some ?o) = ?o" by code_simp
  have mz: "merge_options (Some [(''timeout'', JNum 0)]) = ?z" by code_simp
  have mn: "merge_options None = [(''timeout'', JNum 10000), (''polling'', JStr ''raf'')]"
    by code_simp
  have v2: "validateOptions_p2 ?o = Inr ()" by code_simp
  have vz: "validateOptions_p2 ?z = Inr ()" by code_simp
  have vn: "validateOptions_p2 [(''timeout'', JNum 10000), (''polling'', JStr ''raf'')] = Inr ()"
    by code_simp
  have vj: "validateOptions_js ?o = Inr ()" by code_simp
  have v3: "validateOptions_p3 ?o = Inl (invalid_option ''timeout'')" by code_simp
  have a: "wait_p2 (throws_from 1 ?b) (Some ?o)
           = Promise (wait_executor_p2 (throws_from 1 ?b) 1000 (JStr ''mutation''))"
    by (simp add: wait_p2_def m v2 get_def)
  have b: "run_p2 (throws_from 1 ?b) 1000 (JStr ''mutation'') [Mutation]
         (wait_executor_p2 (throws_from 1 ?b) 1000 (JStr ''mutation''))
     = initial\<lparr>settled := Pending, evals := 2, timeout_timer := True, observer := True,
               timers_created := 1, observers_created := 1, uncaught := [?b]\<rparr>"
    by (simp add: run_p2_def wait_executor_p2_def throws_from_def initial_def on_mutation_def
          throw_in_def Let_def)
  have c: "run_p2 (throws_from 1 ?b) 1000 (JStr ''mutation'') [Mutation, Mutation]
         (wait_executor_p2 (throws_from 1 ?b) 1000 (JStr ''mutation''))
     = initial\<lparr>settled := Pending, evals := 3, timeout_timer := True, observer := True,
               timers_created := 1, observers_created := 1, uncaught := [?b, ?b]\<rparr>"
    by (simp add: run_p2_def wait_executor_p2_def throws_from_def initial_def on_mutation_def
          throw_in_def Let_def)
  have d: "settled (run_p2 (throws_from 1 ?b) 1000 (JStr ''mutation'') [Mutation, TimeoutFires]
         (wait_executor_p2 (throws_from 1 ?b) 1000 (JStr ''mutation'')))
     = Rejected (JStr (timeout_message 1000))"
    by (simp add: run_p2_def wait_executor_p2_def throws_from_def initial_def on_mutation_def
          throw_in_def reject_def Let_def)
  have e: "wait_p2 (throws_from 2 ?b) (Some [(''timeout'', JNum 0)])
     = Promise (wait_executor_p2 (throws_from 2 ?b) 0 (JStr ''raf''))"
    by (simp add: wait_p2_def mz vz get_def)
  have f: "run_p2 (throws_from 2 ?b) 0 (JStr ''raf'') [FrameTick]
         (wait_executor_p2 (throws_from 2 ?b) 0 (JStr ''raf''))
     = initial\<lparr>settled := Pending, evals := 3, frames_requested := 1, uncaught := [?b]\<rparr>"
    by (simp add: run_p2_def wait_executor_p2_def throws_from_def initial_def poll_def
          throw_in_def Let_def)
  have g: "wait_p2 (throws_from 0 ?b) None
     = Promise (initial\<lparr>settled := Rejected ?b, evals := 1\<rparr>)"
    by (simp add: wait_p2_def mn vn get_def wait_executor_p2_def
          throws_from_def reject_def initial_def)
  have h: "waitForFunction (throws_from 1 ?b) (Some ?o)
     = Promise (waitForFunction_executor (throws_from 1 ?b) 1000 (JStr ''mutation''))"
    by (simp add: waitForFunction_def m vj get_def)
  have i: "fold (fire_js (throws_from 1 ?b) 1000) [Mutation, Mutation]
         (waitForFunction_executor (throws_from 1 ?b) 1000 (JStr ''mutation''))
     = initial\<lparr>settled := Pending, evals := 3, timeout_timer := True, observer := True,
               timers_created := 1, observers_created := 1, uncaught := [?b, ?b]\<rparr>"
    by (simp add: waitForFunction_executor_def throws_from_def initial_def on_mutation_def
          throw_in_def Let_def)
  have j: "wait (throws_from 1 ?b) (Some ?o) = Threw (invalid_option ''timeout'')"
    by (simp add: wait_def m v3)
  show ?thesis using a b c d e f g h i j unfolding timeout_message_1000 by blast
qed

text \<open>
  In part_002, where neither defect is present, a \<^verbatim>\<open>polling\<close> value that is neither
  \<^verbatim>\<open>"mutation"\<close> nor a number gives the call that \<^verbatim>\<open>"raf"\<close> gives, and a frame that
  finds the predicate falsy requests the next one. No validator reads the value of
  \<^verbatim>\<open>polling\<close>.
\<close>

lemma wait_p2_other_polling_frames:
  assumes "\<not> is_number polling" and "polling \<noteq> JStr ''mutation''"
    and "validateOptions_p2 (merge_options options) = Inr ()"
    and "get (merge_options options) ''timeout'' = JNum t"
    and "get (merge_options options) ''polling'' = polling"
  shows "wait_p2 fn options = Promise (wait_executor_p2 fn t (JStr ''raf''))"
    and "run_p2 fn t polling events s = run_p2 fn t (JStr ''raf'') events s"
proof -
  have e: "wait_executor_p2 fn t polling = wait_executor_p2 fn t (JStr ''raf'')"
    using assms(1,2) poll_other[OF assms(1)]
    by (simp add: wait_executor_p2_def Let_def split: completion.split)
  show "wait_p2 fn options = Promise (wait_executor_p2 fn t (JStr ''raf''))"
    using assms(3,4,5) e by (simp add: wait_p2_def)
  have h: "fire_p2 fn t polling = fire_p2 fn t (JStr ''raf'')"
  proof (intro ext)
    fix ev s
    show "fire_p2 fn t polling ev s = fire_p2 fn t (JStr ''raf'') ev s"
      using poll_other[OF assms(1), of InCallback fn] by (cases ev) simp_all
  qed
  show "run_p2 fn t polling events s = run_p2 fn t (JStr ''raf'') events s"
    unfolding run_p2_def h ..
qed

lemma frame_tick_polls_again:
  assumes "\<not> is_number polling" and "poll_frame s" and "fn (evals s) = Returns v" "\<not> truthy v"
  shows "fire_p2 fn t polling FrameTick s
         = s\<lparr>poll_frame := True, evals := Suc (evals s),
             frames_requested := Suc (frames_requested s)\<rparr>"
  using assms by (simp add: poll_def)

lemma validators_ignore_polling:
  "validateOptions_js (with_polling p ob) = validateOptions_js (with_polling q ob)"
  "validateOptions_p2 (with_polling p ob) = validateOptions_p2 (with_polling q ob)"
  "validateOptions_p3 (with_polling p ob) = validateOptions_p3 (with_polling q ob)"
  by (simp_all add: validateOptions_js_def validateOptions_p2_def validateOptions_p3_def
        own_entries_with_polling loop_js_with_polling loop_p2_with_polling loop_p3_with_polling)

text \<open>
  Claim C10. For an options value whose \<^verbatim>\<open>polling\<close> is neither \<^verbatim>\<open>"mutation"\<close> nor a
  number, validation accepts it and the wait engine polls on animation frames, as it
  does for \<^verbatim>\<open>"raf"\<close>; values of \<^verbatim>\<open>polling\<close> are never validated or rejected.

  The code at \<^verbatim>\<open>polling: "rAF"\<close> and a predicate that is always \<^verbatim>\<open>null\<close> (as that of
  \<^verbatim>\<open>$\<close> is while nothing matches the selector). In \<^verbatim>\<open>src/portascrape.js\<close> validation
  accepts the options, and \<^verbatim>\<open>poll\<close> throws a ReferenceError where it names the
  undeclared \<^verbatim>\<open>checkFunction\<close>: the promise is rejected with it inside the executor,
  after two evaluations, and no animation frame is requested; \<^verbatim>\<open>"raf"\<close> gives the same.
  In part_003 validation refuses the options, as it refuses all, and \<^verbatim>\<open>wait\<close> throws.
\<close>

theorem other_polling_rejected_or_refused:
  "validateOptions_js (merge_options (Some [(''polling'', JStr ''rAF'')])) = Inr ()
   \<and> waitForFunction (always JNull) (Some [(''polling'', JStr ''rAF'')])
       = Promise (initial\<lparr>settled := Rejected (JError ReferenceErr ''checkFunction is not defined''),
                    evals := 2, timeout_timer := True, timers_created := 1\<rparr>)
   \<and> waitForFunction (always JNull) (Some [(''polling'', JStr ''raf'')])
       = waitForFunction (always JNull) (Some [(''polling'', JStr ''rAF'')])
   \<and> dollar_js no_match (\<lambda>k selector. Inr []) ''#missing'' (Some [(''polling'', JStr ''rAF'')])
       = waitForFunction (always JNull) (Some [(''polling'', JStr ''rAF'')])
   \<and> validateOptions_p3 (merge_options (Some [(''polling'', JStr ''rAF'')]))
       = Inl (invalid_option ''timeout'')
   \<and> wait (always JNull) (Some [(''polling'', JStr ''rAF'')]) = Threw (invalid_option ''timeout'')"
proof -
  let ?o = "[(''timeout'', JNum 10000), (''polling'', JStr ''rAF'')]"
  let ?r = "[(''timeout'', JNum 10000), (''polling'', JStr ''raf'')]"
  have m: "merge_options (Some [(''polling'', JStr ''rAF'')]) = ?o" by code_simp
  have mr: "merge_options (Some [(''polling'', JStr ''raf'')]) = ?r" by code_simp
  have vj: "validateOptions_js ?o = Inr ()" by code_simp
  have vr: "validateOptions_js ?r = Inr ()" by code_simp
  have v3: "validateOptions_p3 ?o = Inl (invalid_option ''timeout'')" by code_simp
  have ex: "waitForFunction_executor (always JNull) 10000 (JStr ''rAF'')
            = initial\<lparr>settled := Rejected (JError ReferenceErr ''checkFunction is not defined''),
                    evals := 2, timeout_timer := True, timers_created := 1\<rparr>"
    by (simp add: waitForFunction_executor_def always_def initial_def poll_js_def throw_in_def
          reject_def Let_def)
  have er: "waitForFunction_executor (always JNull) 10000 (JStr ''raf'')
            = initial\<lparr>settled := Rejected (JError ReferenceErr ''checkFunction is not defined''),
                    evals := 2, timeout_timer := True, timers_created := 1\<rparr>"
    by (simp add: waitForFunction_executor_def always_def initial_def poll_js_def throw_in_def
          reject_def Let_def)
  have a: "waitForFunction (always JNull) (Some [(''polling'', JStr ''rAF'')])
       = Promise (initial\<lparr>settled := Rejected (JError ReferenceErr ''checkFunction is not defined''),
                    evals := 2, timeout_timer := True, timers_created := 1\<rparr>)"
    by (simp add: waitForFunction_def m vj get_def ex)
  have b: "waitForFunction (always JNull) (Some [(''polling'', JStr ''raf'')])
       = Promise (initial\<lparr>settled := Rejected (JError ReferenceErr ''checkFunction is not defined''),
                    evals := 2, timeout_timer := True, timers_created := 1\<rparr>)"
    by (simp add: waitForFunction_def mr vr get_def er)
  have f: "(\<lambda>k. dollar_predicate_js no_match (\<lambda>selector. Inr []) ''#missing''
                 (Some \<lparr>exactText = None, containsText = None, matches = None\<rparr>)) = always JNull"
    by (simp add: dollar_predicate_js_def querySelector_def always_def)
  have t: "typed_text_options [(''polling'', JStr ''rAF'')]
           = Some \<lparr>exactText = None, containsText = None, matches = None\<rparr>"
    by (simp add: typed_text_options_def get_def)
  have d: "dollar_js no_match (\<lambda>k selector. Inr []) ''#missing'' (Some [(''polling'', JStr ''rAF'')])
       = waitForFunction (always JNull) (Some [(''polling'', JStr ''rAF'')])"
    by (simp add: dollar_js_def t f)
  have w: "wait (always JNull) (Some [(''polling'', JStr ''rAF'')]) = Threw (invalid_option ''timeout'')"
    by (simp add: wait_def m v3)
  show ?thesis using a b d w vj v3 unfolding m by simp
qed

section \<open>Properties of the locator and of the table helpers\<close>

lemma search_eq:
  "search element P =
     (if list_ex (\<lambda>child. is_text child \<and> P child) (childNodes element)
      then JElem element else JNull)"
proof -
  have "search_loop element P cs =
     (if list_ex (\<lambda>child. is_text child \<and> P child) cs then JElem element else JNull)" for cs
    by (induction cs) simp_all
  then show ?thesis by (simp add: search_def)
qed

lemma search_p2_eq:
  "search_p2 element P =
     (if list_ex (\<lambda>child. is_text child \<and> P child) (childNodes element)
      then JElem element else JUndefined)"
proof -
  have "search_loop_p2 element P cs =
     (if list_ex (\<lambda>child. is_text child \<and> P child) cs then JElem element else JUndefined)" for cs
    by (induction cs) simp_all
  then show ?thesis by (simp add: search_p2_def)
qed

lemma trim_empty: "trim [] = []"
  by (simp add: trim_def)

lemma search_exact:
  assumes "s \<noteq> []"
  shows "search element (\<lambda>child. textContent child \<noteq> [] \<and> Some (trim (textContent child)) = Some s)
         = (if has_direct_text s element then JElem element else JNull)"
proof -
  have "(\<lambda>child. is_text child \<and> textContent child \<noteq> [] \<and> Some (trim (textContent child)) = Some s)
        = (\<lambda>child. is_text child \<and> trim (textContent child) = s)"
    using assms trim_empty by fastforce
  then show ?thesis by (simp add: search_eq has_direct_text_def)
qed

lemma search_p2_exact:
  "search_p2 element (\<lambda>child. Some (trim (textContent child)) = Some s)
     = (if has_direct_text s element then JElem element else JUndefined)"
  by (simp add: search_p2_eq has_direct_text_def)

lemma dollar_loop_p3_exact:
  assumes "s \<noteq> []"
  shows "dollar_loop_p3 test (only_exactText s) elements result =
     (case find (has_direct_text s) elements of None \<Rightarrow> JNull | Some element \<Rightarrow> JElem element)"
proof (induction elements arbitrary: result)
  case Nil
  then show ?case by simp
next
  case (Cons element rest)
  show ?case
    using assms Cons.IH search_exact[OF assms, of element]
    by (simp add: only_exactText_def Let_def)
qed

lemma dollar_loop_p2_exact:
  assumes "s \<noteq> []"
  shows "dollar_loop_p2 test (only_exactText s) elements result =
     (case find (has_direct_text s) elements of None \<Rightarrow> JNull | Some element \<Rightarrow> JElem element)"
proof (induction elements arbitrary: result)
  case Nil
  then show ?case by simp
next
  case (Cons element rest)
  show ?case
    using assms Cons.IH search_p2_exact[of element s]
    by (simp add: only_exactText_def Let_def)
qed

lemma dollar_loop_js_exact:
  assumes "s \<noteq> []"
  shows "dollar_loop_js test (only_exactText s) elements =
     (case find (\<lambda>element. textContent element = s) elements of
        None \<Rightarrow> JNull | Some element \<Rightarrow> JElem element)"
  using assms by (induction elements) (auto simp add: only_exactText_def)

lemma exact_predicates:
  assumes "s \<noteq> []" and "doc selector = Inr elements"
  shows "dollar_predicate_p3 test doc selector (Some (only_exactText s))
         = Returns (case find (has_direct_text s) elements of
                      None \<Rightarrow> JNull | Some element \<Rightarrow> JElem element)"
    and "dollar_predicate_p2 test doc selector (Some (only_exactText s))
         = Returns (case find (has_direct_text s) elements of
                      None \<Rightarrow> JNull | Some element \<Rightarrow> JElem element)"
    and "dollar_predicate_js test doc selector (Some (only_exactText s))
         = Returns (case find (\<lambda>element. textContent element = s) elements of
                      None \<Rightarrow> JNull | Some element \<Rightarrow> JElem element)"
  using assms dollar_loop_p3_exact[OF assms(1)] dollar_loop_p2_exact[OF assms(1)]
    dollar_loop_js_exact[OF assms(1)]
  by (simp_all add: dollar_predicate_p3_def dollar_predicate_p2_def dollar_predicate_js_def
        only_exactText_def)

lemma empty_exact_predicates:
  "dollar_predicate_p3 test doc selector (Some (only_exactText [])) = querySelector doc selector"
  "dollar_predicate_p2 test doc selector (Some (only_exactText [])) = querySelector doc selector"
  "dollar_predicate_js test doc selector (Some (only_exactText [])) = querySelector doc selector"
  by (simp_all add: dollar_predicate_p3_def dollar_predicate_p2_def dollar_predicate_js_def
        only_exactText_def)

text \<open>
  The engine of part_002 on a predicate that never throws: a resolved promise holds the
  value of the first truthy evaluation, a pending one has seen falsy evaluations only
  and has a poller, and a rejection comes from the timeout.
\<close>

lemma fire_p2_sound:
  assumes nt: "\<forall>k. \<exists>v. fn k = Returns v"
    and r: "\<forall>w. settled s = Resolved w \<longrightarrow>
              (\<exists>k<evals s. fn k = Returns w \<and> truthy w
                 \<and> (\<forall>j<k. \<exists>v. fn j = Returns v \<and> \<not> truthy v))"
    and p: "settled s = Pending \<longrightarrow>
              (\<forall>j<evals s. \<exists>v. fn j = Returns v \<and> \<not> truthy v)
              \<and> (poll_timer s \<or> poll_frame s \<or> observer s)"
  shows "(\<forall>w. settled (fire_p2 fn t polling ev s) = Resolved w \<longrightarrow>
              (\<exists>k<evals (fire_p2 fn t polling ev s). fn k = Returns w \<and> truthy w
                 \<and> (\<forall>j<k. \<exists>v. fn j = Returns v \<and> \<not> truthy v)))
       \<and> (settled (fire_p2 fn t polling ev s) = Pending \<longrightarrow>
              (\<forall>j<evals (fire_p2 fn t polling ev s). \<exists>v. fn j = Returns v \<and> \<not> truthy v)
              \<and> (poll_timer (fire_p2 fn t polling ev s) \<or> poll_frame (fire_p2 fn t polling ev s)
                   \<or> observer (fire_p2 fn t polling ev s)))"
proof -
  obtain v where v: "fn (evals s) = Returns v" using nt by blast
  have step: "\<forall>j<Suc (evals s). \<exists>v. fn j = Returns v \<and> \<not> truthy v"
    if "settled s = Pending" "\<not> truthy v"
    using that p v by (auto simp: less_Suc_eq)
  have hit: "\<exists>k<Suc (evals s). fn k = Returns v \<and> truthy v
                 \<and> (\<forall>j<k. \<exists>v. fn j = Returns v \<and> \<not> truthy v)"
    if "settled s = Pending" "truthy v"
    using that p v by blast
  have keep: "\<exists>k<Suc (evals s). fn k = Returns w \<and> truthy w
                 \<and> (\<forall>j<k. \<exists>v. fn j = Returns v \<and> \<not> truthy v)"
    if "settled s = Resolved w" for w
    using that r less_Suc_eq by blast
  show ?thesis
  proof (cases ev)
    case TimeoutFires
    then show ?thesis using r p by (auto simp: reject_def)
  next
    case PollTimerFires
    show ?thesis
    proof (cases "poll_timer s")
      case False
      then show ?thesis using PollTimerFires r p by simp
    next
      case True
      then show ?thesis
        using PollTimerFires v step hit keep
        by (cases "settled s") (auto simp: poll_def resolve_def clearTimeout_def)
    qed
  next
    case FrameTick
    show ?thesis
    proof (cases "poll_frame s")
      case False
      then show ?thesis using FrameTick r p by simp
    next
      case True
      then show ?thesis
        using FrameTick v step hit keep
        by (cases "settled s") (auto simp: poll_def resolve_def clearTimeout_def)
    qed
  next
    case Mutation
    show ?thesis
    proof (cases "observer s")
      case False
      then show ?thesis using Mutation r p by simp
    next
      case True
      then show ?thesis
        using Mutation v step hit keep
        by (cases "settled s") (auto simp: on_mutation_def resolve_def clearTimeout_def)
    qed
  qed
qed

lemma executor_p2_sound:
  assumes nt: "\<forall>k. \<exists>v. fn k = Returns v"
  shows "(\<forall>w. settled (wait_executor_p2 fn t polling) = Resolved w \<longrightarrow>
              (\<exists>k<evals (wait_executor_p2 fn t polling). fn k = Returns w \<and> truthy w
                 \<and> (\<forall>j<k. \<exists>v. fn j = Returns v \<and> \<not> truthy v)))
       \<and> (settled (wait_executor_p2 fn t polling) = Pending \<longrightarrow>
              (\<forall>j<evals (wait_executor_p2 fn t polling). \<exists>v. fn j = Returns v \<and> \<not> truthy v)
              \<and> (poll_timer (wait_executor_p2 fn t polling)
                   \<or> poll_frame (wait_executor_p2 fn t polling)
                   \<or> observer (wait_executor_p2 fn t polling)))"
proof -
  obtain v0 where v0: "fn 0 = Returns v0" using nt by blast
  obtain v1 where v1: "fn (Suc 0) = Returns v1" using nt by blast
  show ?thesis
  proof (cases "truthy v0")
    case True
    then show ?thesis
      using v0 by (simp add: wait_executor_p2_def resolve_def initial_def)
  next
    case f0: False
    show ?thesis
    proof (cases "polling = JStr ''mutation''")
      case True
      then show ?thesis
        using v0 f0 by (simp add: wait_executor_p2_def initial_def Let_def)
    next
      case False
      have two: "j < Suc (Suc 0) \<longleftrightarrow> j = 0 \<or> j = Suc 0" for j by auto
      show ?thesis
        using v0 v1 f0 False
        by (cases "truthy v1")
          (auto simp: wait_executor_p2_def initial_def Let_def poll_def resolve_def
             clearTimeout_def two)
    qed
  qed
qed

lemma run_p2_sound:
  assumes nt: "\<forall>k. \<exists>v. fn k = Returns v"
  shows "(\<forall>w. settled (run_p2 fn t polling events (wait_executor_p2 fn t polling)) = Resolved w \<longrightarrow>
              (\<exists>k<evals (run_p2 fn t polling events (wait_executor_p2 fn t polling)).
                 fn k = Returns w \<and> truthy w
                 \<and> (\<forall>j<k. \<exists>v. fn j = Returns v \<and> \<not> truthy v)))
       \<and> (settled (run_p2 fn t polling events (wait_executor_p2 fn t polling)) = Pending \<longrightarrow>
              (\<forall>j<evals (run_p2 fn t polling events (wait_executor_p2 fn t polling)).
                 \<exists>v. fn j = Returns v \<and> \<not> truthy v)
              \<and> (poll_timer (run_p2 fn t polling events (wait_executor_p2 fn t polling))
                   \<or> poll_frame (run_p2 fn t polling events (wait_executor_p2 fn t polling))
                   \<or> observer (run_p2 fn t polling events (wait_executor_p2 fn t polling))))"
proof (induction events rule: rev_induct)
  case Nil
  then show ?case using executor_p2_sound[OF nt, of t polling] by (simp add: run_p2_def)
next
  case (snoc ev events)
  have e: "run_p2 fn t polling (events @ [ev]) (wait_executor_p2 fn t polling)
           = fire_p2 fn t polling ev (run_p2 fn t polling events (wait_executor_p2 fn t polling))"
    by (simp add: run_p2_def)
  show ?case
    unfolding e using snoc.IH by (intro fire_p2_sound[OF nt]) blast+
qed

lemma poller_resolves:
  assumes "settled s = Pending" and "fn (evals s) = Returns w" and "truthy w"
  shows "poll_frame s \<Longrightarrow> settled (fire_p2 fn t polling FrameTick s) = Resolved w"
    and "poll_timer s \<Longrightarrow> settled (fire_p2 fn t polling PollTimerFires s) = Resolved w"
    and "observer s \<Longrightarrow> settled (fire_p2 fn t polling Mutation s) = Resolved w"
  using assms by (simp_all add: poll_def on_mutation_def resolve_def clearTimeout_def)

lemma poller_evaluates:
  assumes "fn (evals s) = Returns w"
  shows "poll_frame s \<Longrightarrow> evals (fire_p2 fn t polling FrameTick s) = Suc (evals s)"
    and "poll_timer s \<Longrightarrow> evals (fire_p2 fn t polling PollTimerFires s) = Suc (evals s)"
    and "observer s \<Longrightarrow> evals (fire_p2 fn t polling Mutation s) = Suc (evals s)"
  using assms by (simp_all add: poll_def on_mutation_def resolve_def clearTimeout_def)

lemma fire_p2_rejects_by_timeout:
  assumes nt: "\<forall>k. \<exists>v. fn k = Returns v"
    and a: "timeout_timer s \<longrightarrow> 0 < t"
    and b: "\<forall>x. settled s = Rejected x \<longrightarrow> x = JStr (timeout_message t) \<and> 0 < t"
  shows "(timeout_timer (fire_p2 fn t polling ev s) \<longrightarrow> 0 < t)
       \<and> (\<forall>x. settled (fire_p2 fn t polling ev s) = Rejected x
              \<longrightarrow> x = JStr (timeout_message t) \<and> 0 < t)"
proof -
  obtain v where v: "fn (evals s) = Returns v" using nt by blast
  show ?thesis
    using a b v
    by (cases ev)
      (auto simp: poll_def on_mutation_def resolve_def reject_def clearTimeout_def)
qed

lemma run_p2_rejects_by_timeout:
  assumes nt: "\<forall>k. \<exists>v. fn k = Returns v"
  shows "(timeout_timer (run_p2 fn t polling events (wait_executor_p2 fn t polling)) \<longrightarrow> 0 < t)
       \<and> (\<forall>x. settled (run_p2 fn t polling events (wait_executor_p2 fn t polling)) = Rejected x
              \<longrightarrow> x = JStr (timeout_message t) \<and> 0 < t)"
proof (induction events rule: rev_induct)
  case Nil
  obtain v0 where v0: "fn 0 = Returns v0" using nt by blast
  obtain v1 where v1: "fn (Suc 0) = Returns v1" using nt by blast
  show ?case
    using v0 v1
    by (auto simp: run_p2_def wait_executor_p2_def initial_def Let_def poll_def resolve_def
          clearTimeout_def)
next
  case (snoc ev events)
  have e: "run_p2 fn t polling (events @ [ev]) (wait_executor_p2 fn t polling)
           = fire_p2 fn t polling ev (run_p2 fn t polling events (wait_executor_p2 fn t polling))"
    by (simp add: run_p2_def)
  show ?case
    unfolding e using snoc.IH by (intro fire_p2_rejects_by_timeout[OF nt]) blast+
qed

text \<open>
  In part_003 every call of \<^verbatim>\<open>$\<close> throws from the validation of \<^verbatim>\<open>wait\<close>, before the
  predicate is evaluated.
\<close>

lemma dollar_p3_throws:
  "dollar_p3 test docs selector options = Threw (invalid_option ''timeout'')"
  by (simp add: dollar_p3_def wait_def validate_p3_merged split: option.split)

lemma growing_document_first: "find (has_direct_text ''hello'') [nested_hello] = None"
  by code_simp
lemma growing_document_later: "find (has_direct_text ''hello'') [nested_hello, spaced_hello, plain_hello]
           = Some spaced_hello"
  by code_simp

text \<open>
  Claim C4, as amended. For options that pass validation with \<^verbatim>\<open>exactText\<close> a non-empty
  string \<open>s\<close> and no other text matcher, and a selector that the document accepts:

  \<^item> at every evaluation the predicate of \<^verbatim>\<open>$\<close> yields the first queried element, in
    document order, that has a child text node whose data, trimmed, equals \<open>s\<close>, and
    \<^verbatim>\<open>null\<close> when there is none (part_003 and part_002; the text of the subtree is not
    compared). The predicate of \<^verbatim>\<open>$\<close> in \<^verbatim>\<open>src/portascrape.js\<close> yields the first
    queried element whose whole \<^verbatim>\<open>textContent\<close>, untrimmed, equals \<open>s\<close>;
  \<^item> the call of \<^verbatim>\<open>$\<close> in part_002 returns the promise of \<^verbatim>\<open>wait\<close> on that predicate.
    Whatever the host does next: if the promise is resolved, its value is the element
    that the predicate yielded at the first evaluation that found one; while it is
    pending, no evaluation has found one and a timer, a frame request or the observer is
    pending (polling continues); it is rejected only by the timeout. The timer, frame or
    mutation that comes when the document has such an element resolves the promise with
    the first of them.
\<close>

theorem exact_text_locates_first_direct_match:
  fixes docs :: "nat \<Rightarrow> document" and s :: string
    and test :: "string \<Rightarrow> string \<Rightarrow> bool" and selector :: string
  defines "fn \<equiv> (\<lambda>k. dollar_predicate_p2 test (docs k) selector (Some (only_exactText s)))"
  assumes "s \<noteq> []"
    and "typed_text_options ob = Some (only_exactText s)"
    and "validateOptions_p2 (merge_options (Some ob)) = Inr ()"
    and "get (merge_options (Some ob)) ''timeout'' = JNum t"
    and "get (merge_options (Some ob)) ''polling'' = polling"
    and "\<forall>k. docs k selector = Inr (elements k)"
    and "st = run_p2 fn t polling events
                (wait_executor_p2 fn t polling)"
  shows "dollar_predicate_p3 test (docs k) selector (Some (only_exactText s))
           = Returns (case find (has_direct_text s) (elements k) of
                        None \<Rightarrow> JNull | Some element \<Rightarrow> JElem element)
       \<and> dollar_predicate_p2 test (docs k) selector (Some (only_exactText s))
           = Returns (case find (has_direct_text s) (elements k) of
                        None \<Rightarrow> JNull | Some element \<Rightarrow> JElem element)
       \<and> dollar_predicate_js test (docs k) selector (Some (only_exactText s))
           = Returns (case find (\<lambda>element. textContent element = s) (elements k) of
                        None \<Rightarrow> JNull | Some element \<Rightarrow> JElem element)
       \<and> dollar_p2 test docs selector (Some ob)
           = Promise (wait_executor_p2 fn t polling)
       \<and> (\<forall>w. settled st = Resolved w \<longrightarrow>
             (\<exists>n element. n < evals st \<and> w = JElem element
                \<and> find (has_direct_text s) (elements n) = Some element
                \<and> (\<forall>j<n. find (has_direct_text s) (elements j) = None)))
       \<and> (settled st = Pending \<longrightarrow>
             (\<forall>j<evals st. find (has_direct_text s) (elements j) = None)
             \<and> (poll_timer st \<or> poll_frame st \<or> observer st))
       \<and> (\<forall>x. settled st = Rejected x \<longrightarrow> x = JStr (timeout_message t) \<and> 0 < t)
       \<and> (settled st = Pending \<and> find (has_direct_text s) (elements (evals st)) = Some e \<longrightarrow>
             (poll_frame st \<longrightarrow>
                settled (fire_p2 fn t polling FrameTick st)
                  = Resolved (JElem e))
             \<and> (poll_timer st \<longrightarrow>
                settled (fire_p2 fn t polling PollTimerFires st)
                  = Resolved (JElem e))
             \<and> (observer st \<longrightarrow>
                settled (fire_p2 fn t polling Mutation st)
                  = Resolved (JElem e)))"
proof -
  let ?fn = fn
  let ?hit = "\<lambda>k. case find (has_direct_text s) (elements k) of
                     None \<Rightarrow> JNull | Some element \<Rightarrow> JElem element"
  have d: "docs k selector = Inr (elements k)" for k using assms(7) by simp
  have f: "?fn k = Returns (?hit k)" for k
    unfolding fn_def using exact_predicates(2)[where doc="docs k" and selector=selector and elements="elements k",
        OF assms(2) d[of k]] .
  have nt: "\<forall>k. \<exists>v. ?fn k = Returns v" using f by blast
  have falsy: "(\<exists>v. ?fn k = Returns v \<and> \<not> truthy v)
               \<longleftrightarrow> find (has_direct_text s) (elements k) = None" for k
    by (simp add: f split: option.split)
  have hit: "(?fn k = Returns w \<and> truthy w)
             \<longleftrightarrow> (\<exists>element. w = JElem element
                    \<and> find (has_direct_text s) (elements k) = Some element)" for k w
    by (auto simp add: f split: option.split)
  have c1: "dollar_predicate_p3 test (docs k) selector (Some (only_exactText s))
           = Returns (?hit k)"
    using exact_predicates(1)[where doc="docs k" and selector=selector and elements="elements k",
        OF assms(2) d[of k]] .
  have c2: "dollar_predicate_p2 test (docs k) selector (Some (only_exactText s))
           = Returns (?hit k)"
    using exact_predicates(2)[where doc="docs k" and selector=selector and elements="elements k",
        OF assms(2) d[of k]] .
  have c3: "dollar_predicate_js test (docs k) selector (Some (only_exactText s))
           = Returns (case find (\<lambda>element. textContent element = s) (elements k) of
                        None \<Rightarrow> JNull | Some element \<Rightarrow> JElem element)"
    using exact_predicates(3)[where doc="docs k" and selector=selector and elements="elements k",
        OF assms(2) d[of k]] .
  have c4: "dollar_p2 test docs selector (Some ob) = Promise (wait_executor_p2 ?fn t polling)"
    using assms(3,4,5,6) by (simp add: dollar_p2_def wait_p2_def fn_def)
  note snd = run_p2_sound[OF nt, of t polling events, folded assms(8)]
  have c5: "\<forall>w. settled st = Resolved w \<longrightarrow>
             (\<exists>n element. n < evals st \<and> w = JElem element
                \<and> find (has_direct_text s) (elements n) = Some element
                \<and> (\<forall>j<n. find (has_direct_text s) (elements j) = None))"
  proof (intro allI impI)
    fix w assume "settled st = Resolved w"
    then obtain n where n: "n < evals st" "?fn n = Returns w \<and> truthy w"
      "\<forall>j<n. \<exists>v. ?fn j = Returns v \<and> \<not> truthy v"
      using snd by blast
    obtain element where "w = JElem element"
      "find (has_direct_text s) (elements n) = Some element"
      using n(2) hit by blast
    moreover have "\<forall>j<n. find (has_direct_text s) (elements j) = None"
      using n(3) falsy by blast
    ultimately show "\<exists>n element. n < evals st \<and> w = JElem element
                \<and> find (has_direct_text s) (elements n) = Some element
                \<and> (\<forall>j<n. find (has_direct_text s) (elements j) = None)"
      using n(1) by blast
  qed
  have c6: "settled st = Pending \<longrightarrow>
             (\<forall>j<evals st. find (has_direct_text s) (elements j) = None)
             \<and> (poll_timer st \<or> poll_frame st \<or> observer st)"
    using snd falsy by blast
  have c7: "\<forall>x. settled st = Rejected x \<longrightarrow> x = JStr (timeout_message t) \<and> 0 < t"
    using run_p2_rejects_by_timeout[OF nt, of t polling events, folded assms(8)] by blast
  have c8: "settled st = Pending \<and> find (has_direct_text s) (elements (evals st)) = Some e \<longrightarrow>
             (poll_frame st \<longrightarrow>
                settled (fire_p2 ?fn t polling FrameTick st) = Resolved (JElem e))
             \<and> (poll_timer st \<longrightarrow>
                settled (fire_p2 ?fn t polling PollTimerFires st) = Resolved (JElem e))
             \<and> (observer st \<longrightarrow>
                settled (fire_p2 ?fn t polling Mutation st) = Resolved (JElem e))"
  proof (intro impI, elim conjE)
    assume p: "settled st = Pending"
      and h: "find (has_direct_text s) (elements (evals st)) = Some e"
    have r: "?fn (evals st) = Returns (JElem e)" using f[of "evals st"] h by simp
    show "(poll_frame st \<longrightarrow>
                settled (fire_p2 ?fn t polling FrameTick st) = Resolved (JElem e))
             \<and> (poll_timer st \<longrightarrow>
                settled (fire_p2 ?fn t polling PollTimerFires st) = Resolved (JElem e))
             \<and> (observer st \<longrightarrow>
                settled (fire_p2 ?fn t polling Mutation st) = Resolved (JElem e))"
      using poller_resolves[where fn=fn and s=st and w="JElem e" and t=t
          and polling=polling] p r by simp
  qed
  show ?thesis using c1 c2 c3 c4 c5 c6 c7 c8 by blast
qed

theorem exact_text_locates_first_direct_match_witness:
  "''hello'' \<noteq> []
   \<and> typed_text_options [(''exactText'', JStr ''hello''), (''polling'', JStr ''mutation'')]
       = Some (only_exactText ''hello'')
   \<and> validateOptions_p2
         (merge_options (Some [(''exactText'', JStr ''hello''), (''polling'', JStr ''mutation'')]))
       = Inr ()
   \<and> get (merge_options (Some [(''exactText'', JStr ''hello''), (''polling'', JStr ''mutation'')]))
         ''timeout'' = JNum 10000
   \<and> get (merge_options (Some [(''exactText'', JStr ''hello''), (''polling'', JStr ''mutation'')]))
         ''polling'' = JStr ''mutation''
   \<and> (\<forall>k. growing_document k ''p''
          = Inr (if k = 0 then [nested_hello] else [nested_hello, spaced_hello, plain_hello]))
   \<and> dollar_predicate_p3 no_match (growing_document 0) ''p'' (Some (only_exactText ''hello''))
       = Returns JNull
   \<and> dollar_predicate_p3 no_match (growing_document 1) ''p'' (Some (only_exactText ''hello''))
       = Returns (JElem spaced_hello)
   \<and> dollar_predicate_js no_match (growing_document 1) ''p'' (Some (only_exactText ''hello''))
       = Returns (JElem nested_hello)
   \<and> dollar_p2 no_match growing_document ''p''
         (Some [(''exactText'', JStr ''hello''), (''polling'', JStr ''mutation'')])
       = Promise (initial\<lparr>evals := 1, timeout_timer := True, observer := True,
                    timers_created := 1, observers_created := 1\<rparr>)
   \<and> settled (fire_p2
         (\<lambda>k. dollar_predicate_p2 no_match (growing_document k) ''p''
                (Some (only_exactText ''hello'')))
         10000 (JStr ''mutation'') Mutation
         (initial\<lparr>evals := 1, timeout_timer := True, observer := True,
                    timers_created := 1, observers_created := 1\<rparr>))
       = Resolved (JElem spaced_hello)"
proof -
  let ?ob = "[(''exactText'', JStr ''hello''), (''polling'', JStr ''mutation'')]"
  let ?els = "\<lambda>k::nat. if k = 0 then [nested_hello] else [nested_hello, spaced_hello, plain_hello]"
  let ?fn = "\<lambda>k. dollar_predicate_p2 no_match (growing_document k) ''p''
                (Some (only_exactText ''hello''))"
  let ?s0 = "initial\<lparr>evals := 1, timeout_timer := True, observer := True,
                    timers_created := 1, observers_created := 1\<rparr>"
  have h1: "''hello'' \<noteq> []" by simp
  have h2: "typed_text_options ?ob = Some (only_exactText ''hello'')"
    by (simp add: typed_text_options_def get_def only_exactText_def)
  have m: "merge_options (Some ?ob)
           = [(''timeout'', JNum 10000), (''polling'', JStr ''mutation''),
              (''exactText'', JStr ''hello'')]"
    by code_simp
  have h3: "validateOptions_p2 (merge_options (Some ?ob)) = Inr ()"
    unfolding m by code_simp
  have h4: "get (merge_options (Some ?ob)) ''timeout'' = JNum 10000"
    unfolding m by (simp add: get_def)
  have h5: "get (merge_options (Some ?ob)) ''polling'' = JStr ''mutation''"
    unfolding m by (simp add: get_def)
  have h6: "\<forall>k. growing_document k ''p'' = Inr (?els k)"
    by (simp add: growing_document_def)
  have ex: "wait_executor_p2 ?fn 10000 (JStr ''mutation'') = ?s0"
    using exact_predicates(2)[where doc="growing_document 0" and selector="''p''"
        and elements="[nested_hello]" and s="''hello''" and test=no_match] growing_document_first
    by (simp add: wait_executor_p2_def growing_document_def initial_def Let_def)
  note T0 = exact_text_locates_first_direct_match[where s="''hello''" and ob="?ob"
      and t=10000 and polling="JStr ''mutation''" and docs=growing_document
      and selector="''p''" and elements="?els" and test=no_match and events="[]"
      and st="?s0" and e=spaced_hello, OF h1 h2 h3 h4 h5 h6]
  have st: "?s0 = run_p2 ?fn 10000 (JStr ''mutation'') [] (wait_executor_p2 ?fn 10000 (JStr ''mutation''))"
    by (simp add: run_p2_def ex)
  note T = T0[OF st]
  have p0: "dollar_predicate_p3 no_match (growing_document 0) ''p'' (Some (only_exactText ''hello''))
       = Returns JNull"
    using T[of 0] growing_document_first by simp
  have p1: "dollar_predicate_p3 no_match (growing_document 1) ''p'' (Some (only_exactText ''hello''))
       = Returns (JElem spaced_hello)"
    using T[of 1] growing_document_later by simp
  have fj: "find (\<lambda>element. textContent element = ''hello'')
              [nested_hello, spaced_hello, plain_hello] = Some nested_hello"
    by code_simp
  have pj: "dollar_predicate_js no_match (growing_document 1) ''p'' (Some (only_exactText ''hello''))
       = Returns (JElem nested_hello)"
    using T[of 1] fj by simp
  have c: "dollar_p2 no_match growing_document ''p'' (Some ?ob) = Promise ?s0"
    using T[of 0] ex by simp
  have r: "settled (fire_p2 ?fn 10000 (JStr ''mutation'') Mutation ?s0)
           = Resolved (JElem spaced_hello)"
    using T[of 0] growing_document_later by (simp add: initial_def)
  show ?thesis using h1 h2 h3 h4 h5 h6 p0 p1 pj c r by blast
qed

text \<open>
  The claim as stated fails in two ways. With \<^verbatim>\<open>exactText\<close> the empty string no text is
  compared: the call resolves with the first element that the selector matches, here one
  that has no text node with empty trimmed data. In \<^verbatim>\<open>src/portascrape.js\<close> the text of
  the whole element, untrimmed, is compared: the call resolves with an element whose text
  lies in a nested element, and an element with a matching child text node between white
  space is not found.
\<close>

theorem exact_text_counterexample:
  "dollar_p2 no_match (\<lambda>k selector. Inr [plain_hello]) ''p'' (Some [(''exactText'', JStr [])])
     = Promise (initial\<lparr>settled := Resolved (JElem plain_hello), evals := 1\<rparr>)
   \<and> dollar_predicate_p3 no_match (\<lambda>selector. Inr [plain_hello]) ''p'' (Some (only_exactText []))
     = Returns (JElem plain_hello)
   \<and> \<not> has_direct_text [] plain_hello
   \<and> dollar_js no_match (\<lambda>k selector. Inr [nested_hello]) ''p''
       (Some [(''exactText'', JStr ''hello'')])
     = Promise (initial\<lparr>settled := Resolved (JElem nested_hello), evals := 1\<rparr>)
   \<and> \<not> has_direct_text ''hello'' nested_hello
   \<and> dollar_predicate_js no_match (\<lambda>selector. Inr [spaced_hello]) ''p''
       (Some (only_exactText ''hello''))
     = Returns JNull
   \<and> has_direct_text ''hello'' spaced_hello"
proof -
  let ?e = "[(''exactText'', JStr [])]"
  let ?h = "[(''exactText'', JStr ''hello'')]"
  have te: "typed_text_options ?e = Some (only_exactText [])"
    by (simp add: typed_text_options_def get_def only_exactText_def)
  have th: "typed_text_options ?h = Some (only_exactText ''hello'')"
    by (simp add: typed_text_options_def get_def only_exactText_def)
  have me: "merge_options (Some ?e)
            = [(''timeout'', JNum 10000), (''polling'', JStr ''raf''), (''exactText'', JStr [])]"
    by code_simp
  have mh: "merge_options (Some ?h)
            = [(''timeout'', JNum 10000), (''polling'', JStr ''raf''), (''exactText'', JStr ''hello'')]"
    by code_simp
  have ve: "validateOptions_p2 (merge_options (Some ?e)) = Inr ()" unfolding me by code_simp
  have vh: "validateOptions_js (merge_options (Some ?h)) = Inr ()" unfolding mh by code_simp
  have a: "dollar_p2 no_match (\<lambda>k selector. Inr [plain_hello]) ''p'' (Some ?e)
     = Promise (initial\<lparr>settled := Resolved (JElem plain_hello), evals := 1\<rparr>)"
    using ve
    by (simp add: dollar_p2_def te wait_p2_def me get_def wait_executor_p2_def
          empty_exact_predicates querySelector_def resolve_def initial_def)
  have b: "dollar_predicate_p3 no_match (\<lambda>selector. Inr [plain_hello]) ''p''
             (Some (only_exactText [])) = Returns (JElem plain_hello)"
    by (simp add: empty_exact_predicates querySelector_def)
  have c: "\<not> has_direct_text [] plain_hello" by code_simp
  have fj: "find (\<lambda>element. textContent element = ''hello'') [nested_hello] = Some nested_hello"
    by code_simp
  have d: "dollar_js no_match (\<lambda>k selector. Inr [nested_hello]) ''p'' (Some ?h)
     = Promise (initial\<lparr>settled := Resolved (JElem nested_hello), evals := 1\<rparr>)"
    using vh exact_predicates(3)[where doc="\<lambda>selector. Inr [nested_hello]" and selector="''p''"
        and elements="[nested_hello]" and s="''hello''" and test=no_match] fj
    by (simp add: dollar_js_def th waitForFunction_def mh get_def waitForFunction_executor_def
          resolve_def initial_def)
  have e: "\<not> has_direct_text ''hello'' nested_hello" by code_simp
  have fs: "find (\<lambda>element. textContent element = ''hello'') [spaced_hello] = None"
    by code_simp
  have f: "dollar_predicate_js no_match (\<lambda>selector. Inr [spaced_hello]) ''p''
       (Some (only_exactText ''hello'')) = Returns JNull"
    using exact_predicates(3)[where doc="\<lambda>selector. Inr [spaced_hello]" and selector="''p''"
        and elements="[spaced_hello]" and s="''hello''" and test=no_match] fs
    by simp
  have g: "has_direct_text ''hello'' spaced_hello" by code_simp
  show ?thesis using a b c d e f g by blast
qed

lemma map_of_put_prop: "map_of (put_prop ob k v) = (map_of ob)(k \<mapsto> v)"
  by (induction ob) (auto simp: fun_eq_iff)

lemma row_assign_other:
  "key \<noteq> ''__proto__'' \<Longrightarrow>
   map_of (fst (row_assign st header v)) key = ((map_of (fst st))(header \<mapsto> v)) key"
  by (simp add: row_assign_def map_of_put_prop)

lemma fold_row_assign:
  assumes "key \<noteq> ''__proto__''"
  shows "map_of (fst (fold (\<lambda>(h, v) st. row_assign st h v) kvs st)) key
         = (map_of (fst st) ++ map_of (rev kvs)) key"
proof (induction kvs arbitrary: st)
  case Nil
  then show ?case by simp
next
  case (Cons kv kvs)
  obtain h v where kv: "kv = (h, v)" by (cases kv)
  have "map_of (fst (fold (\<lambda>(h, v) st. row_assign st h v) (kv # kvs) st)) key
        = (map_of (fst (row_assign st h v)) ++ map_of (rev kvs)) key"
    using Cons.IH[of "row_assign st h v"] by (simp add: kv)
  also have "\<dots> = (map_of (fst st) ++ map_of (rev (kv # kvs))) key"
    using row_assign_other[OF assms, of st h v]
    by (simp add: kv map_add_def split: option.split)
  finally show ?case .
qed

lemma padded_cells:
  "zip hs (map (\<lambda>i. if i < length rd then rd ! i else JUndefined) [0..<length hs])
   = zip hs (rd @ replicate (length hs - length rd) JUndefined)"
  by (rule nth_equalityI) (auto simp: nth_append)

lemma row_object_mapping:
  assumes "key \<noteq> ''__proto__''"
  shows "map_of (row_object headers rowData) key = spec_zip_row headers rowData key"
proof -
  let ?val = "\<lambda>i. if i < length rowData then rowData ! i else JUndefined"
  have z: "zip headers (map ?val [0..<length headers])
           = map (\<lambda>(h, i). (h, ?val i)) (zip headers [0..<length headers])"
    by (simp add: zip_map2)
  have "row_object headers rowData
        = fst (fold (\<lambda>(h, v) st. row_assign st h v)
            (map (\<lambda>(h, i). (h, ?val i)) (zip headers [0..<length headers])) ([], False))"
    unfolding row_object_def by (simp add: fold_map comp_def case_prod_unfold)
  then have "map_of (row_object headers rowData) key
        = map_of (rev (zip headers (map ?val [0..<length headers]))) key"
    using fold_row_assign[OF assms, of _ "([], False)"] by (simp add: z)
  also have "\<dots> = spec_zip_row headers rowData key"
    by (simp only: spec_zip_row_def padded_cells)
  finally show ?thesis .
qed

text \<open>
  The key \<^verbatim>\<open>__proto__\<close> in a row object: a string under it is dropped; in part_003 the
  \<^verbatim>\<open>null\<close> of an empty cell removes the prototype, and a later assignment under the key
  makes an own property.
\<close>

lemma row_object_proto_key:
  "row_object [''__proto__'', ''A''] [JStr ''x'', JStr ''y''] = [(''A'', JStr ''y'')]"
  "row_object [''__proto__'', ''__proto__'', ''A''] [JNull, JStr ''x'', JStr ''y'']
     = [(''__proto__'', JStr ''x''), (''A'', JStr ''y'')]"
  by code_simp+

text \<open>
  A table that is in the document when \<^verbatim>\<open>$\<close> is called is located at the first
  evaluation (\<^verbatim>\<open>src/portascrape.js\<close> and part_002, whose table helpers are the same).
\<close>

lemma table_is_located:
  "dollar_js test (\<lambda>k selector. Inr [tableElement]) selector None
     = Promise (initial\<lparr>settled := Resolved (JElem tableElement), evals := 1\<rparr>)"
  "dollar_p2 test (\<lambda>k selector. Inr [tableElement]) selector None
     = Promise (initial\<lparr>settled := Resolved (JElem tableElement), evals := 1\<rparr>)"
proof -
  have m: "merge_options None = [(''timeout'', JNum 10000), (''polling'', JStr ''raf'')]"
    by code_simp
  have vj: "validateOptions_js [(''timeout'', JNum 10000), (''polling'', JStr ''raf'')] = Inr ()"
    by code_simp
  have v2: "validateOptions_p2 [(''timeout'', JNum 10000), (''polling'', JStr ''raf'')] = Inr ()"
    by code_simp
  show "dollar_js test (\<lambda>k selector. Inr [tableElement]) selector None
     = Promise (initial\<lparr>settled := Resolved (JElem tableElement), evals := 1\<rparr>)"
    by (simp add: dollar_js_def waitForFunction_def m vj get_def waitForFunction_executor_def
          dollar_predicate_js_def querySelector_def resolve_def initial_def)
  show "dollar_p2 test (\<lambda>k selector. Inr [tableElement]) selector None
     = Promise (initial\<lparr>settled := Resolved (JElem tableElement), evals := 1\<rparr>)"
    by (simp add: dollar_p2_def wait_p2_def m v2 get_def wait_executor_p2_def
          dollar_predicate_p2_def querySelector_def resolve_def initial_def)
qed

text \<open>
  Claim C9, as amended. On a located element with at least one \<^verbatim>\<open>tr\<close>,
  \<^verbatim>\<open>$tableWithHeaders\<close> gives one object for each row after the first. Its field names
  are the trimmed texts of the \<^verbatim>\<open>th\<close> cells of the first row. Under every field name
  other than \<^verbatim>\<open>__proto__\<close> the object holds what the positional zip of the field names
  with the row's \<^verbatim>\<open>td\<close> cells gives: the value of the cell at the position of the name
  (of the last position, for a repeated name), \<^verbatim>\<open>undefined\<close> where the row has no cell
  at that position. The value of a cell is its trimmed text (in part_003, \<^verbatim>\<open>null\<close> for a
  cell without text). On the table of headers "Name", "Age" and the row "Alice", "30" it
  gives the one object \<^verbatim>\<open>{Name: "Alice", Age: "30"}\<close>, and \<^verbatim>\<open>$table\<close> gives
  \<^verbatim>\<open>[["Name","Age"],["Alice","30"]]\<close> (both revisions).
\<close>

theorem table_with_headers_zips_rows:
  assumes "querySelectorAll_tags tableElement [''tr''] = first # others"
    and "i < length others" and "header \<noteq> ''__proto__''"
  shows "(\<exists>objects. dollar_tableWithHeaders_p3 tableElement = Inr objects
            \<and> length objects = length others
            \<and> map_of (objects ! i) header
                = spec_zip_row
                    (map (\<lambda>h. trim (textContent h)) (querySelectorAll_tags first [''th'']))
                    (map (\<lambda>c. if textContent c = [] then JNull
                               else JStr (trim (textContent c)))
                         (querySelectorAll_tags (others ! i) [''td'']))
                    header)
       \<and> (\<exists>objects. dollar_tableWithHeaders_js tableElement = Inr objects
            \<and> length objects = length others
            \<and> map_of (objects ! i) header
                = spec_zip_row
                    (map (\<lambda>h. trim (textContent h)) (querySelectorAll_tags first [''th'']))
                    (map (\<lambda>c. JStr (trim (textContent c)))
                         (querySelectorAll_tags (others ! i) [''td'']))
                    header)
       \<and> dollar_tableWithHeaders_p3 example_table
           = Inr [[(''Name'', JStr ''Alice''), (''Age'', JStr ''30'')]]
       \<and> dollar_table_p3 example_table
           = [[JStr ''Name'', JStr ''Age''], [JStr ''Alice'', JStr ''30'']]
       \<and> dollar_tableWithHeaders_js example_table
           = Inr [[(''Name'', JStr ''Alice''), (''Age'', JStr ''30'')]]
       \<and> dollar_table_js example_table
           = [[JStr ''Name'', JStr ''Age''], [JStr ''Alice'', JStr ''30'']]"
proof -
  have hp: "headers_p3 first
            = map (\<lambda>h. trim (textContent h)) (querySelectorAll_tags first [''th''])"
    by (simp add: headers_p3_def trim_def)
  have cp: "rowData_p3 row
            = map (\<lambda>c. if textContent c = [] then JNull else JStr (trim (textContent c)))
                  (querySelectorAll_tags row [''td''])" for row
    by (simp add: rowData_p3_def)
  have a: "\<exists>objects. dollar_tableWithHeaders_p3 tableElement = Inr objects
            \<and> length objects = length others
            \<and> map_of (objects ! i) header
                = spec_zip_row
                    (map (\<lambda>h. trim (textContent h)) (querySelectorAll_tags first [''th'']))
                    (map (\<lambda>c. if textContent c = [] then JNull
                               else JStr (trim (textContent c)))
                         (querySelectorAll_tags (others ! i) [''td'']))
                    header"
    using assms row_object_mapping[OF assms(3)]
    by (simp add: dollar_tableWithHeaders_p3_def hp cp)
  have b: "\<exists>objects. dollar_tableWithHeaders_js tableElement = Inr objects
            \<and> length objects = length others
            \<and> map_of (objects ! i) header
                = spec_zip_row
                    (map (\<lambda>h. trim (textContent h)) (querySelectorAll_tags first [''th'']))
                    (map (\<lambda>c. JStr (trim (textContent c)))
                         (querySelectorAll_tags (others ! i) [''td'']))
                    header"
    using assms row_object_mapping[OF assms(3)]
    by (simp add: dollar_tableWithHeaders_js_def headers_js_def rowData_js_def)
  have e1: "dollar_tableWithHeaders_p3 example_table
           = Inr [[(''Name'', JStr ''Alice''), (''Age'', JStr ''30'')]]"
    by code_simp
  have e2: "dollar_table_p3 example_table
           = [[JStr ''Name'', JStr ''Age''], [JStr ''Alice'', JStr ''30'']]"
    by code_simp
  have e3: "dollar_tableWithHeaders_js example_table
           = Inr [[(''Name'', JStr ''Alice''), (''Age'', JStr ''30'')]]"
    by code_simp
  have e4: "dollar_table_js example_table
           = [[JStr ''Name'', JStr ''Age''], [JStr ''Alice'', JStr ''30'']]"
    by code_simp
  show ?thesis using a b e1 e2 e3 e4 by blast
qed

theorem table_with_headers_zips_rows_witness:
  "querySelectorAll_tags ragged_table [''tr''] = [header_row, short_row, long_row]
   \<and> (1::nat) < length [short_row, long_row] \<and> ''Age'' \<noteq> ''__proto__''
   \<and> dollar_tableWithHeaders_p3 ragged_table
       = Inr [[(''Name'', JStr ''Alice''), (''Age'', JStr ''30''), (''City'', JUndefined)],
              [(''Name'', JStr ''Bob''), (''Age'', JNull), (''City'', JStr ''Oslo'')]]
   \<and> dollar_tableWithHeaders_js ragged_table
       = Inr [[(''Name'', JStr ''Alice''), (''Age'', JStr ''30''), (''City'', JUndefined)],
              [(''Name'', JStr ''Bob''), (''Age'', JStr []), (''City'', JStr ''Oslo'')]]
   \<and> spec_zip_row
         (map (\<lambda>h. trim (textContent h)) (querySelectorAll_tags header_row [''th'']))
         (map (\<lambda>c. if textContent c = [] then JNull else JStr (trim (textContent c)))
              (querySelectorAll_tags ([short_row, long_row] ! 1) [''td'']))
         ''Age''
       = Some JNull
   \<and> spec_zip_row
         (map (\<lambda>h. trim (textContent h)) (querySelectorAll_tags header_row [''th'']))
         (map (\<lambda>c. JStr (trim (textContent c)))
              (querySelectorAll_tags ([short_row, long_row] ! 1) [''td'']))
         ''Age''
       = Some (JStr [])
   \<and> map (\<lambda>h. trim (textContent h)) (querySelectorAll_tags header_row [''th''])
       = [''Name'', ''Age'', ''City'']
   \<and> dollar_table_p3 ragged_table
       = [[JStr ''Name'', JStr ''Age'', JStr ''City''], [JStr ''Alice'', JStr ''30''],
          [JStr ''Bob'', JStr [], JStr ''Oslo'', JStr ''extra'']]
   \<and> dollar_table_js ragged_table
       = [[JStr ''Name'', JStr ''Age'', JStr ''City''], [JStr ''Alice'', JStr ''30''],
          [JStr ''Bob'', JStr [], JStr ''Oslo'', JStr ''extra'']]"
proof -
  have t3: "dollar_table_p3 ragged_table
       = [[JStr ''Name'', JStr ''Age'', JStr ''City''], [JStr ''Alice'', JStr ''30''],
          [JStr ''Bob'', JStr [], JStr ''Oslo'', JStr ''extra'']]"
    by code_simp
  have tj: "dollar_table_js ragged_table
       = [[JStr ''Name'', JStr ''Age'', JStr ''City''], [JStr ''Alice'', JStr ''30''],
          [JStr ''Bob'', JStr [], JStr ''Oslo'', JStr ''extra'']]"
    by code_simp
  have q: "querySelectorAll_tags ragged_table [''tr''] = [header_row, short_row, long_row]"
    by (simp add: querySelectorAll_tags_def ragged_table_def header_row_def short_row_def
          long_row_def)
  have i: "(1::nat) < length [short_row, long_row]" by simp
  have h: "''Age'' \<noteq> ''__proto__''" by simp
  have p3: "dollar_tableWithHeaders_p3 ragged_table
       = Inr [[(''Name'', JStr ''Alice''), (''Age'', JStr ''30''), (''City'', JUndefined)],
              [(''Name'', JStr ''Bob''), (''Age'', JNull), (''City'', JStr ''Oslo'')]]"
    by code_simp
  have js: "dollar_tableWithHeaders_js ragged_table
       = Inr [[(''Name'', JStr ''Alice''), (''Age'', JStr ''30''), (''City'', JUndefined)],
              [(''Name'', JStr ''Bob''), (''Age'', JStr []), (''City'', JStr ''Oslo'')]]"
    by code_simp
  have hs: "map (\<lambda>h. trim (textContent h)) (querySelectorAll_tags header_row [''th''])
       = [''Name'', ''Age'', ''City'']"
    by code_simp
  note T = table_with_headers_zips_rows[OF q i h]
  have a: "spec_zip_row
         (map (\<lambda>h. trim (textContent h)) (querySelectorAll_tags header_row [''th'']))
         (map (\<lambda>c. if textContent c = [] then JNull else JStr (trim (textContent c)))
              (querySelectorAll_tags ([short_row, long_row] ! 1) [''td'']))
         ''Age''
       = Some JNull"
    using T p3 by auto
  have b: "spec_zip_row
         (map (\<lambda>h. trim (textContent h)) (querySelectorAll_tags header_row [''th'']))
         (map (\<lambda>c. JStr (trim (textContent c)))
              (querySelectorAll_tags ([short_row, long_row] ! 1) [''td'']))
         ''Age''
       = Some (JStr [])"
    using T js by auto
  show ?thesis using q i h p3 js a b hs t3 tj by blast
qed

text \<open>
  The claim as stated, for every located element, fails on an element without a row: the
  first row is \<^verbatim>\<open>undefined\<close> and reading its cells throws a TypeError, which rejects the
  returned promise. It also fails for a header cell with the text \<^verbatim>\<open>__proto__\<close>: the
  assignment under that name makes no field, where the zip has one.
\<close>

theorem table_without_rows_counterexample:
  "dollar_tableWithHeaders_p3 (Element ''table'' []) = Inl undefined_row
   \<and> dollar_tableWithHeaders_js (Element ''table'' []) = Inl undefined_row
   \<and> dollar_tableWithHeaders_js
       (Element ''table''
          [Element ''tr'' [Element ''th'' [TextNode ''__proto__''], Element ''th'' [TextNode ''Age'']],
           Element ''tr'' [Element ''td'' [TextNode ''x''], Element ''td'' [TextNode ''30'']]])
       = Inr [[(''Age'', JStr ''30'')]]
   \<and> dollar_tableWithHeaders_p3
       (Element ''table''
          [Element ''tr'' [Element ''th'' [TextNode ''__proto__''], Element ''th'' [TextNode ''Age'']],
           Element ''tr'' [Element ''td'' [TextNode ''x''], Element ''td'' [TextNode ''30'']]])
       = Inr [[(''Age'', JStr ''30'')]]
   \<and> spec_zip_row [''__proto__'', ''Age''] [JStr ''x'', JStr ''30''] ''__proto__''
       = Some (JStr ''x'')"
  by code_simp

end
